theory Spec2Isabelle
  imports Complex_Main "HOL-Library.Word"
begin

section \<open>The document viewer: data model\<close>

text \<open>
  The embedding follows \<^verbatim>\<open>src/components/document-viewer-modal.tsx\<close> and
  \<^verbatim>\<open>src/app/api/proxy-pdf/route.js\<close>.

  JavaScript numbers are modelled as rationals (\<^typ>\<open>rat\<close>). The handlers are
  written with exact arithmetic; infinities and NaN are outside the model, and every
  theorem whose code path divides by a measured or stored value assumes that divisor
  non-zero. The literal \<^verbatim>\<open>1.1\<close> is the rational \<open>11 / 10\<close>, \<^verbatim>\<open>0.5\<close> is \<open>1 / 2\<close>.
  The fit calculator is also given with the rounding of IEEE double precision after
  each operation (\<open>calculateFitScale_rounded\<close>), since its results are compared with
  exact bounds. Integer-valued state (page numbers) is \<^typ>\<open>int\<close>.

  React state is passed explicitly. A handler reads the state of the render it was
  created in and queues its updates, so inside one handler \<^verbatim>\<open>scale\<close> is the scale
  before the handler ran; the model reads the argument state and returns the updated one.
  Mutable refs (\<^verbatim>\<open>panOffsetRef\<close>, \<^verbatim>\<open>lastTransformRef\<close>, \<^verbatim>\<open>startPanRef\<close>) and the
  \<^verbatim>\<open>style.transform\<close> of the viewer element are fields of the same record.
\<close>

text \<open>\<^verbatim>\<open>interface Position { x: number; y: number }\<close>\<close>

record position =
  pos_x :: rat
  pos_y :: rat

text \<open>Module constants.\<close>

definition BASE_SCALE :: rat where "BASE_SCALE = 1"
definition PADDING :: rat where "PADDING = 20"
definition MAX_SCALE :: rat where "MAX_SCALE = 5"
definition MIN_SCALE_FACTOR :: rat where "MIN_SCALE_FACTOR = 1 / 2"

text \<open>
  The layout the handlers measure. \<^verbatim>\<open>getBoundingClientRect()\<close> gives a rectangle of
  fractional numbers; \<^verbatim>\<open>clientWidth\<close>, \<^verbatim>\<open>clientHeight\<close>, \<^verbatim>\<open>scrollWidth\<close> and
  \<^verbatim>\<open>scrollHeight\<close> are non-negative integers in the DOM. A ref whose element is not
  mounted is \<open>None\<close> (\<^verbatim>\<open>ref.current === null\<close>).
\<close>

record rect =
  rect_left :: rat
  rect_top :: rat
  rect_width :: rat
  rect_height :: rat

record container_el =
  clientWidth :: nat
  clientHeight :: nat
  container_rect :: rect

record viewer_el =
  viewer_rect :: rect

record page_el =
  scrollWidth :: nat
  scrollHeight :: nat

record dom =
  containerRef :: "container_el option"
  viewerRef :: "viewer_el option"
  pageRef :: "page_el option"

text \<open>
  The value written to \<^verbatim>\<open>viewerRef.current.style.transform\<close>:
  \<^verbatim>\<open>translate(${x}px, ${y}px) scale(${newScale})\<close>, a list of transform functions in the
  order of the string.
\<close>

datatype transform_fn = Translate rat rat | Scale rat

text \<open>The \<^verbatim>\<open>useState\<close> and \<^verbatim>\<open>useRef\<close> cells of \<^verbatim>\<open>DocumentViewerModal\<close>.\<close>

record viewer_state =
  numPages :: int
  pageNumber :: int
  scale :: rat
  fitScale :: rat
  error :: "string option"
  isLoading :: bool
  isPanning :: bool
  isFocused :: bool
  activeMode :: string
  startPanRef :: position
  panOffsetRef :: position
  lastTransformRef :: position
  transform :: "transform_fn list option"

text \<open>The initial values given to \<^verbatim>\<open>useState\<close> and \<^verbatim>\<open>useRef\<close>; no transform is set yet.\<close>

definition origin :: position where
  "origin = \<lparr>pos_x = 0, pos_y = 0\<rparr>"

definition initial_state :: viewer_state where
  "initial_state =
     \<lparr>numPages = 0, pageNumber = 1, scale = 1, fitScale = 1, error = None,
      isLoading = True, isPanning = False, isFocused = False, activeMode = ''drag'',
      startPanRef = origin, panOffsetRef = origin, lastTransformRef = origin,
      transform = None\<rparr>"

text \<open>
  DOM events. \<^verbatim>\<open>WheelEvent\<close> extends \<^verbatim>\<open>MouseEvent\<close>; only the fields the handlers read
  are kept.
\<close>

record mouse_event =
  button :: int
  clientX :: rat
  clientY :: rat
  ctrlKey :: bool
  metaKey :: bool

record wheel_event = mouse_event +
  deltaY :: rat

section \<open>The viewport engine\<close>

text \<open>
  \<^verbatim>\<open>updateTransform(newScale, zoomOrigin?)\<close>. With a zoom origin the pan offset is moved
  by the difference of the viewer's width (height) divided by the new and by the old
  scale, times the origin's relative position in the container; \<^verbatim>\<open>scale\<close> is the scale
  of the state the handler runs in. Then the transform string is written.
  Nothing happens unless all three refs are mounted.
\<close>

definition updateTransform ::
  "dom \<Rightarrow> viewer_state \<Rightarrow> rat \<Rightarrow> position option \<Rightarrow> viewer_state" where
  "updateTransform d s newScale zoomOrigin =
     (case (viewerRef d, containerRef d, pageRef d) of
        (Some viewerEl, Some containerEl, Some pageEl) \<Rightarrow>
          (let s1 =
             (case zoomOrigin of
                None \<Rightarrow> s
              | Some zo \<Rightarrow>
                  (let container = container_rect containerEl;
                       viewer = viewer_rect viewerEl;
                       relativeX = (pos_x zo - rect_left container) / rect_width container;
                       relativeY = (pos_y zo - rect_top container) / rect_height container;
                       oldWidth = rect_width viewer / scale s;
                       newWidth = rect_width viewer / newScale;
                       oldHeight = rect_height viewer / scale s;
                       newHeight = rect_height viewer / newScale
                   in s\<lparr>panOffsetRef :=
                         \<lparr>pos_x = pos_x (panOffsetRef s) + (newWidth - oldWidth) * relativeX,
                          pos_y = pos_y (panOffsetRef s) + (newHeight - oldHeight) * relativeY\<rparr>\<rparr>))
           in s1\<lparr>transform :=
                  Some [Translate (pos_x (panOffsetRef s1)) (pos_y (panOffsetRef s1)),
                        Scale newScale]\<rparr>)
      | _ \<Rightarrow> s)"

text \<open>
  \<^verbatim>\<open>calculateFitScale()\<close>: runs only when the container and the page are mounted and
  loading has finished.
\<close>

definition calculateFitScale :: "dom \<Rightarrow> viewer_state \<Rightarrow> viewer_state" where
  "calculateFitScale d s =
     (case (containerRef d, pageRef d) of
        (Some containerEl, Some pageEl) \<Rightarrow>
          (if \<not> isLoading s then
             (let containerWidth = of_nat (clientWidth containerEl);
                  containerHeight = of_nat (clientHeight containerEl);
                  pageWidth = of_nat (scrollWidth pageEl);
                  pageHeight = of_nat (scrollHeight pageEl);
                  scaleWidth = (containerWidth - PADDING * 2) / pageWidth;
                  scaleHeight = (containerHeight - PADDING * 2) / pageHeight;
                  newFitScale = min scaleWidth scaleHeight;
                  scaledWidth = pageWidth * newFitScale;
                  scaledHeight = pageHeight * newFitScale;
                  xOffset = (containerWidth - scaledWidth) / 2;
                  yOffset = (containerHeight - scaledHeight) / 2;
                  s1 = s\<lparr>fitScale := newFitScale, scale := newFitScale,
                         panOffsetRef := \<lparr>pos_x = xOffset, pos_y = yOffset\<rparr>,
                         lastTransformRef := \<lparr>pos_x = xOffset, pos_y = yOffset\<rparr>\<rparr>
              in updateTransform d s1 newFitScale None)
           else s)
      | _ \<Rightarrow> s)"

text \<open>
  \<^verbatim>\<open>handleWheel(e)\<close>, the listener the component adds to the container for
  \<^verbatim>\<open>"wheel"\<close>.
\<close>

definition handleWheel :: "dom \<Rightarrow> wheel_event \<Rightarrow> viewer_state \<Rightarrow> viewer_state" where
  "handleWheel d e s =
     (if (ctrlKey e \<or> metaKey e) \<and> isFocused s then
        (let delta = - deltaY e;
             zoomFactor = 11 / 10
         in case (containerRef d, viewerRef d) of
              (Some container, Some viewer) \<Rightarrow>
                (let containerRect = container_rect container;
                     mouseX = clientX e - rect_left containerRect;
                     mouseY = clientY e - rect_top containerRect;
                     pointXBeforeZoom = (mouseX - pos_x (panOffsetRef s)) / scale s;
                     pointYBeforeZoom = (mouseY - pos_y (panOffsetRef s)) / scale s;
                     newScale =
                       (if delta > 0 then min 5 (scale s * zoomFactor)
                        else max (fitScale s * (1 / 2)) (scale s / zoomFactor));
                     pointXAfterZoom = pointXBeforeZoom * newScale;
                     pointYAfterZoom = pointYBeforeZoom * newScale;
                     s1 = s\<lparr>panOffsetRef :=
                              \<lparr>pos_x = mouseX - pointXAfterZoom,
                               pos_y = mouseY - pointYAfterZoom\<rparr>\<rparr>
                 in (updateTransform d s1 newScale None)\<lparr>scale := newScale\<rparr>)
            | _ \<Rightarrow> s)
      else s)"

text \<open>The pointer handlers of the pan gesture.\<close>

definition handleMouseDown :: "dom \<Rightarrow> mouse_event \<Rightarrow> viewer_state \<Rightarrow> viewer_state" where
  "handleMouseDown d e s =
     (if button e = 0 then
        s\<lparr>isPanning := True,
          startPanRef := \<lparr>pos_x = clientX e, pos_y = clientY e\<rparr>,
          lastTransformRef := panOffsetRef s\<rparr>
      else s)"

definition handleMouseMove :: "dom \<Rightarrow> mouse_event \<Rightarrow> viewer_state \<Rightarrow> viewer_state" where
  "handleMouseMove d e s =
     (if isPanning s then
        (let deltaX = clientX e - pos_x (startPanRef s);
             deltaY = clientY e - pos_y (startPanRef s);
             s1 = s\<lparr>panOffsetRef :=
                      \<lparr>pos_x = pos_x (lastTransformRef s) + deltaX,
                       pos_y = pos_y (lastTransformRef s) + deltaY\<rparr>\<rparr>
         in updateTransform d s1 (scale s) None)
      else s)"

definition handleMouseUp :: "dom \<Rightarrow> mouse_event \<Rightarrow> viewer_state \<Rightarrow> viewer_state" where
  "handleMouseUp d e s = s\<lparr>isPanning := False\<rparr>"

text \<open>\<^verbatim>\<open>handleResetView()\<close>\<close>

definition handleResetView :: "dom \<Rightarrow> viewer_state \<Rightarrow> viewer_state" where
  "handleResetView d s =
     updateTransform d
       (s\<lparr>scale := fitScale s, panOffsetRef := \<lparr>pos_x = 0, pos_y = 0\<rparr>,
          lastTransformRef := \<lparr>pos_x = 0, pos_y = 0\<rparr>\<rparr>)
       (fitScale s) None"

text \<open>
  \<^verbatim>\<open>handleZoomIn()\<close> and \<^verbatim>\<open>handleZoomOut()\<close>. The zoom origin is the centre of the
  container's bounding rectangle. \<^verbatim>\<open>updateTransform\<close> is called from the render whose
  \<^verbatim>\<open>scale\<close> is still the old one, so the new scale is stored after it.
\<close>

definition handleZoomIn :: "dom \<Rightarrow> viewer_state \<Rightarrow> viewer_state" where
  "handleZoomIn d s =
     (case containerRef d of
        Some containerEl \<Rightarrow>
          (let r = container_rect containerEl;
               centerX = rect_left r + rect_width r / 2;
               centerY = rect_top r + rect_height r / 2;
               newScale = min 5 (scale s * (11 / 10))
           in (updateTransform d s newScale (Some \<lparr>pos_x = centerX, pos_y = centerY\<rparr>))
                \<lparr>scale := newScale\<rparr>)
      | None \<Rightarrow> s)"

definition handleZoomOut :: "dom \<Rightarrow> viewer_state \<Rightarrow> viewer_state" where
  "handleZoomOut d s =
     (case containerRef d of
        Some containerEl \<Rightarrow>
          (let r = container_rect containerEl;
               centerX = rect_left r + rect_width r / 2;
               centerY = rect_top r + rect_height r / 2;
               newScale = max (fitScale s * (1 / 2)) (scale s / (11 / 10))
           in (updateTransform d s newScale (Some \<lparr>pos_x = centerX, pos_y = centerY\<rparr>))
                \<lparr>scale := newScale\<rparr>)
      | None \<Rightarrow> s)"

text \<open>\<^verbatim>\<open>getCursorStyle()\<close>\<close>

definition getCursorStyle :: "viewer_state \<Rightarrow> string" where
  "getCursorStyle s =
     (if isPanning s then ''grabbing''
      else if activeMode s = ''drag'' then ''grab''
      else if activeMode s = ''ruler'' then ''crosshair''
      else if activeMode s = ''comment'' then ''text''
      else ''default'')"

section \<open>Double-precision rounding\<close>

text \<open>
  A JavaScript number is an IEEE 754 double: every arithmetic operation returns the
  double nearest to the exact result, ties going to the even significand. A positive
  \<open>x\<close> with \<open>2 ^ e \<le> x < 2 ^ (e + 1)\<close> is rounded to a multiple of \<open>2 ^ (e - 52)\<close>.
  The exponent range is not bounded here: the values met below come from 32-bit pixel
  sizes and are far from overflow and from the subnormal range.
\<close>

text \<open>The binary exponent of a positive rational.\<close>

function expo :: "rat \<Rightarrow> int" where
  "expo x = (if 2 \<le> x then expo (x / 2) + 1
             else if 0 < x \<and> x < 1 then expo (x * 2) - 1
             else 0)"
  by pat_completeness auto
termination
proof (relation "measure (\<lambda>x. if 1 \<le> x then nat \<lfloor>x\<rfloor> else nat \<lceil>1 / x\<rceil>)")
  show "wf (measure (\<lambda>x::rat. if 1 \<le> x then nat \<lfloor>x\<rfloor> else nat \<lceil>1 / x\<rceil>))" by simp
next
  fix x :: rat
  assume a: "2 \<le> x"
  have "\<lfloor>x / 2\<rfloor> < \<lfloor>x\<rfloor>" using a by linarith
  moreover have "1 \<le> \<lfloor>x\<rfloor>" using a by linarith
  ultimately show "(x / 2, x) \<in> measure (\<lambda>x. if 1 \<le> x then nat \<lfloor>x\<rfloor> else nat \<lceil>1 / x\<rceil>)"
    using a by auto
next
  fix x :: rat
  assume a: "\<not> 2 \<le> x" "0 < x \<and> x < 1"
  then have big: "1 < 1 / x" by simp
  then have c2: "2 \<le> \<lceil>1 / x\<rceil>" by linarith
  show "(x * 2, x) \<in> measure (\<lambda>x. if 1 \<le> x then nat \<lfloor>x\<rfloor> else nat \<lceil>1 / x\<rceil>)"
  proof (cases "1 \<le> x * 2")
    case True
    have "\<lfloor>x * 2\<rfloor> = 1" using True a by linarith
    then show ?thesis using True a c2 by auto
  next
    case False
    define y where "y = 1 / x"
    have h: "1 / (x * 2) = y / 2" by (simp add: y_def)
    have "x * 2 < 1" using False by simp
    then have "2 < y" using a by (simp add: y_def field_simps)
    then have "\<lceil>y / 2\<rceil> < \<lceil>y\<rceil>" by linarith
    then have "\<lceil>1 / (x * 2)\<rceil> < \<lceil>1 / x\<rceil>" unfolding h y_def .
    then show ?thesis using False a c2 by auto
  qed
qed

declare expo.simps [simp del]

text \<open>Rounding to the nearest integer, ties to even.\<close>

definition round_even :: "rat \<Rightarrow> int" where
  "round_even y =
     (let n = \<lfloor>y\<rfloor>; r = y - of_int n
      in if r < 1 / 2 then n
         else if 1 / 2 < r then n + 1
         else if even n then n else n + 1)"

text \<open>Rounding to 53 significant bits.\<close>

definition round_pos :: "rat \<Rightarrow> rat" where
  "round_pos x = (let u = 2 powi (expo x - 52) in of_int (round_even (x / u)) * u)"

definition binary64 :: "rat \<Rightarrow> rat" where
  "binary64 x = (if x = 0 then 0 else if x < 0 then - round_pos (- x) else round_pos x)"

text \<open>
  \<^verbatim>\<open>calculateFitScale()\<close> with the result of every arithmetic operation rounded by
  \<open>rnd\<close>. With \<open>rnd = binary64\<close> it computes what the code computes; with the identity
  it is \<open>calculateFitScale\<close>.
\<close>

definition calculateFitScale_rounded :: "(rat \<Rightarrow> rat) \<Rightarrow> dom \<Rightarrow> viewer_state \<Rightarrow> viewer_state" where
  "calculateFitScale_rounded rnd d s =
     (case (containerRef d, pageRef d) of
        (Some containerEl, Some pageEl) \<Rightarrow>
          (if \<not> isLoading s then
             (let containerWidth = of_nat (clientWidth containerEl);
                  containerHeight = of_nat (clientHeight containerEl);
                  pageWidth = of_nat (scrollWidth pageEl);
                  pageHeight = of_nat (scrollHeight pageEl);
                  scaleWidth = rnd (rnd (containerWidth - rnd (PADDING * 2)) / pageWidth);
                  scaleHeight = rnd (rnd (containerHeight - rnd (PADDING * 2)) / pageHeight);
                  newFitScale = min scaleWidth scaleHeight;
                  scaledWidth = rnd (pageWidth * newFitScale);
                  scaledHeight = rnd (pageHeight * newFitScale);
                  xOffset = rnd (rnd (containerWidth - scaledWidth) / 2);
                  yOffset = rnd (rnd (containerHeight - scaledHeight) / 2);
                  s1 = s\<lparr>fitScale := newFitScale, scale := newFitScale,
                         panOffsetRef := \<lparr>pos_x = xOffset, pos_y = yOffset\<rparr>,
                         lastTransformRef := \<lparr>pos_x = xOffset, pos_y = yOffset\<rparr>\<rparr>
              in updateTransform d s1 newFitScale None)
           else s)
      | _ \<Rightarrow> s)"

section \<open>The rendered controls\<close>

text \<open>
  The container \<^verbatim>\<open>div\<close> is written with these handler attributes, in this order:
  \<^verbatim>\<open>onMouseDown={handleMouseDown} onMouseMove={handleMouseMove} onMouseUp={handleMouseUp}
  onMouseLeave={handleMouseUp} onMouseEnter={() => setIsFocused(true)}
  onMouseLeave={() => setIsFocused(false)}\<close>.
  JSX attributes become the keys of one props object, so an attribute written twice
  keeps the value written last.
\<close>

type_synonym mouse_handler = "dom \<Rightarrow> mouse_event \<Rightarrow> viewer_state \<Rightarrow> viewer_state"

definition containerProps :: "(string \<times> mouse_handler) list" where
  "containerProps =
     [(''onMouseDown'', handleMouseDown),
      (''onMouseMove'', handleMouseMove),
      (''onMouseUp'', handleMouseUp),
      (''onMouseLeave'', handleMouseUp),
      (''onMouseEnter'', \<lambda>d e s. s\<lparr>isFocused := True\<rparr>),
      (''onMouseLeave'', \<lambda>d e s. s\<lparr>isFocused := False\<rparr>)]"

definition jsx_props :: "(string \<times> 'h) list \<Rightarrow> string \<Rightarrow> 'h option" where
  "jsx_props attrs = fold (\<lambda>(k, v) m. m(k \<mapsto> v)) attrs Map.empty"

text \<open>Delivering a mouse event to the container calls the handler stored under its prop.\<close>

definition fireContainer :: "string \<Rightarrow> mouse_handler" where
  "fireContainer prop d e s =
     (case jsx_props containerProps prop of
        Some h \<Rightarrow> h d e s
      | None \<Rightarrow> s)"

text \<open>
  The toolbar buttons. A button rendered with \<^verbatim>\<open>disabled\<close> true does not call its
  \<^verbatim>\<open>onClick\<close>; the \<^verbatim>\<open>Button\<close> component passes the attribute to the native button.
\<close>

definition previousDisabled :: "viewer_state \<Rightarrow> bool" where
  "previousDisabled s = (pageNumber s \<le> 1)"

definition nextDisabled :: "viewer_state \<Rightarrow> bool" where
  "nextDisabled s = (pageNumber s \<ge> numPages s)"

definition zoomOutDisabled :: "viewer_state \<Rightarrow> bool" where
  "zoomOutDisabled s = (scale s \<le> fitScale s * MIN_SCALE_FACTOR)"

definition zoomInDisabled :: "viewer_state \<Rightarrow> bool" where
  "zoomInDisabled s = (scale s \<ge> MAX_SCALE)"

definition clickPrevious :: "viewer_state \<Rightarrow> viewer_state" where
  "clickPrevious s =
     (if previousDisabled s then s
      else s\<lparr>pageNumber := max 1 (pageNumber s - 1)\<rparr>)"

definition clickNext :: "viewer_state \<Rightarrow> viewer_state" where
  "clickNext s =
     (if nextDisabled s then s
      else s\<lparr>pageNumber := min (numPages s) (pageNumber s + 1)\<rparr>)"

definition clickZoomOut :: "dom \<Rightarrow> viewer_state \<Rightarrow> viewer_state" where
  "clickZoomOut d s = (if zoomOutDisabled s then s else handleZoomOut d s)"

definition clickZoomIn :: "dom \<Rightarrow> viewer_state \<Rightarrow> viewer_state" where
  "clickZoomIn d s = (if zoomInDisabled s then s else handleZoomIn d s)"

text \<open>\<^verbatim>\<open>onValueChange={setActiveMode}\<close> of the mode toggle group.\<close>

definition setActiveMode :: "string \<Rightarrow> viewer_state \<Rightarrow> viewer_state" where
  "setActiveMode v s = s\<lparr>activeMode := v\<rparr>"

section \<open>Effects and load callbacks\<close>

text \<open>
  The effect with dependency \<^verbatim>\<open>[isOpen]\<close>; it runs with the new value of the prop
  each time the prop changes.
\<close>

definition isOpenEffect :: "bool \<Rightarrow> viewer_state \<Rightarrow> viewer_state" where
  "isOpenEffect isOpen s =
     (if \<not> isOpen then
        s\<lparr>numPages := 0, pageNumber := 1, scale := 1, fitScale := 1, error := None,
          isLoading := True,
          panOffsetRef := \<lparr>pos_x = 0, pos_y = 0\<rparr>,
          lastTransformRef := \<lparr>pos_x = 0, pos_y = 0\<rparr>\<rparr>
      else s)"

text \<open>
  The effect with dependency \<^verbatim>\<open>[isLoading]\<close> calls \<^verbatim>\<open>calculateFitScale\<close> when
  loading has become false; the resize observer does so on every resize while not
  loading. \<^verbatim>\<open>Page.onLoadSuccess\<close> sets \<^verbatim>\<open>isLoading\<close> to false, which re-runs the effect
  only if the value changed.
\<close>

definition onPageLoadSuccess :: "dom \<Rightarrow> viewer_state \<Rightarrow> viewer_state" where
  "onPageLoadSuccess d s =
     (if isLoading s then calculateFitScale d (s\<lparr>isLoading := False\<rparr>) else s)"

definition onResize :: "dom \<Rightarrow> viewer_state \<Rightarrow> viewer_state" where
  "onResize d s = (if \<not> isLoading s then calculateFitScale d s else s)"

definition onDocumentLoadSuccess :: "int \<Rightarrow> viewer_state \<Rightarrow> viewer_state" where
  "onDocumentLoadSuccess n s = s\<lparr>numPages := n, error := None\<rparr>"

definition onDocumentLoadError :: "string \<Rightarrow> dom \<Rightarrow> viewer_state \<Rightarrow> viewer_state" where
  "onDocumentLoadError message d s =
     (let s1 = s\<lparr>error := Some (''Failed to load document: '' @ message),
                 isLoading := False\<rparr>
      in if isLoading s then calculateFitScale d s1 else s1)"

section \<open>The component as a transition system\<close>

text \<open>
  The wheel listener is the \<^verbatim>\<open>handleWheel\<close> of the render in which the effect with
  dependencies \<^verbatim>\<open>[isFocused, scale]\<close> last ran. Its \<^verbatim>\<open>isFocused\<close> and \<^verbatim>\<open>scale\<close> are
  therefore the current ones, but its \<^verbatim>\<open>fitScale\<close> is the one of that render: a fit
  that changes the fit scale and leaves the scale as it was does not replace the
  listener. A wheel event carries the fit scale its listener holds; a wheel over a
  container that has no listener attached is no event.
\<close>

datatype event =
    Wheel wheel_event rat
  | Mouse string mouse_event
  | ClickPrevious
  | ClickNext
  | ClickZoomIn
  | ClickZoomOut
  | ClickResetView
  | ModeChange string
  | IsOpenChanged bool
  | DocumentLoadSuccess int
  | DocumentLoadError string
  | PageLoadSuccess
  | Resize

text \<open>Each event comes with the layout at the moment it is handled.\<close>

fun step :: "dom \<times> event \<Rightarrow> viewer_state \<Rightarrow> viewer_state" where
  "step (d, Wheel e listenerFitScale) s =
     (handleWheel d e (s\<lparr>fitScale := listenerFitScale\<rparr>))\<lparr>fitScale := fitScale s\<rparr>"
| "step (d, Mouse prop e) s = fireContainer prop d e s"
| "step (d, ClickPrevious) s = clickPrevious s"
| "step (d, ClickNext) s = clickNext s"
| "step (d, ClickZoomIn) s = clickZoomIn d s"
| "step (d, ClickZoomOut) s = clickZoomOut d s"
| "step (d, ClickResetView) s = handleResetView d s"
| "step (d, ModeChange v) s = setActiveMode v s"
| "step (d, IsOpenChanged b) s = isOpenEffect b s"
| "step (d, DocumentLoadSuccess n) s = onDocumentLoadSuccess n s"
| "step (d, DocumentLoadError m) s = onDocumentLoadError m d s"
| "step (d, PageLoadSuccess) s = onPageLoadSuccess d s"
| "step (d, Resize) s = onResize d s"

fun run :: "(dom \<times> event) list \<Rightarrow> viewer_state \<Rightarrow> viewer_state" where
  "run [] s = s"
| "run (ev # evs) s = run evs (step ev s)"

text \<open>
  The rendering library reports the page count of a document it has loaded; a loaded
  document has at least one page.
\<close>

fun loaded_pages_ok :: "dom \<times> event \<Rightarrow> bool" where
  "loaded_pages_ok (d, DocumentLoadSuccess n) = (1 \<le> n)"
| "loaded_pages_ok (d, ev) = True"

text \<open>The zoom operations among the events.\<close>

fun is_zoom :: "dom \<times> event \<Rightarrow> bool" where
  "is_zoom (d, Wheel e lf) = True"
| "is_zoom (d, ClickZoomIn) = True"
| "is_zoom (d, ClickZoomOut) = True"
| "is_zoom (d, ev) = False"

text \<open>The wheel listener of an event holds the fit scale \<open>f\<close>.\<close>

fun listener_holds :: "rat \<Rightarrow> dom \<times> event \<Rightarrow> bool" where
  "listener_holds f (d, Wheel e lf) = (lf = f)"
| "listener_holds f (d, ev) = True"

section \<open>The relay endpoint\<close>

text \<open>
  \<^verbatim>\<open>GET(request)\<close> of \<^verbatim>\<open>src/app/api/proxy-pdf/route.js\<close>. The query string is the
  list of its name/value pairs (\<^verbatim>\<open>searchParams.get\<close> returns the first value of a name,
  or \<^verbatim>\<open>null\<close>). The network is a parameter: \<^verbatim>\<open>fetch\<close> either rejects or resolves with
  a response, whose body read (\<^verbatim>\<open>arrayBuffer()\<close>) may itself reject. Console output is
  returned beside the response.
\<close>

type_synonym byte = "8 word"

record upstream_response =
  up_status :: nat
  up_content_type :: "string option"
  up_arrayBuffer :: "byte list option"

datatype fetch_result = Rejected | Resolved upstream_response

text \<open>\<^verbatim>\<open>Response.ok\<close>: the status is in the range 200 to 299.\<close>

definition ok :: "upstream_response \<Rightarrow> bool" where
  "ok r = (200 \<le> up_status r \<and> up_status r \<le> 299)"

datatype body = Text string | Buffer "byte list"

record http_response =
  status :: nat
  headers :: "(string \<times> string) list"
  body :: body

datatype console_line = Warn string | Error string

text \<open>\<^verbatim>\<open>String.prototype.includes\<close>\<close>

fun starts_with :: "string \<Rightarrow> string \<Rightarrow> bool" where
  "starts_with s [] = True"
| "starts_with [] (p # ps) = False"
| "starts_with (c # cs) (p # ps) = (c = p \<and> starts_with cs ps)"

fun str_includes :: "string \<Rightarrow> string \<Rightarrow> bool" where
  "str_includes [] pat = (pat = [])"
| "str_includes (c # cs) pat = (starts_with (c # cs) pat \<or> str_includes cs pat)"

text \<open>The three responses the handler builds. A \<^verbatim>\<open>NextResponse\<close> without a status has 200.\<close>

definition missing_response :: http_response where
  "missing_response = \<lparr>status = 400, headers = [], body = Text ''Missing URL parameter''\<rparr>"

definition failure_response :: http_response where
  \<open>failure_response =
     \<lparr>status = 500, headers = [(''Content-Type'', ''application/json'')],
      body = Text ''{"error":"Failed to fetch PDF"}''\<rparr>\<close>

definition pdf_response :: "byte list \<Rightarrow> http_response" where
  \<open>pdf_response pdfBuffer =
     \<lparr>status = 200,
      headers = [(''Content-Type'', ''application/pdf''),
                 (''Content-Disposition'', ''inline; filename="document.pdf"''),
                 (''Cache-Control'', ''public, max-age=3600'')],
      body = Buffer pdfBuffer\<rparr>\<close>

text \<open>
  \<^verbatim>\<open>!url\<close> holds for \<^verbatim>\<open>null\<close> and for the empty string. Every throw inside the
  \<^verbatim>\<open>try\<close> block (a rejected fetch, a response that is not ok, a rejected body read)
  reaches the \<^verbatim>\<open>catch\<close>, which logs and answers 500.
\<close>

definition GET ::
  "(string \<Rightarrow> fetch_result) \<Rightarrow> (string \<times> string) list \<Rightarrow> http_response \<times> console_line list" where
  "GET fetch searchParams =
     (case map_of searchParams ''url'' of
        None \<Rightarrow> (missing_response, [])
      | Some url \<Rightarrow>
          (if url = [] then (missing_response, [])
           else
             (case fetch url of
                Rejected \<Rightarrow> (failure_response, [Error ''Error fetching PDF:''])
              | Resolved response \<Rightarrow>
                  (if \<not> ok response then (failure_response, [Error ''Error fetching PDF:''])
                   else
                     (let warnings =
                        (case up_content_type response of
                           None \<Rightarrow> [Warn ''Response is not a PDF:'']
                         | Some contentType \<Rightarrow>
                             (if \<not> str_includes contentType ''application/pdf''
                              then [Warn ''Response is not a PDF:''] else []))
                      in case up_arrayBuffer response of
                           None \<Rightarrow> (failure_response, warnings @ [Error ''Error fetching PDF:''])
                         | Some pdfBuffer \<Rightarrow> (pdf_response pdfBuffer, warnings))))))"

section \<open>Example layouts and inputs\<close>

text \<open>
  The layout of the specification's worked example: a container of 800 by 600 pixels
  whose top-left corner is at (100, 50), showing a page of 1600 by 1200 pixels.
\<close>

definition example_container :: container_el where
  "example_container =
     \<lparr>clientWidth = 800, clientHeight = 600,
      container_rect = \<lparr>rect_left = 100, rect_top = 50, rect_width = 800, rect_height = 600\<rparr>\<rparr>"

definition example_viewer :: viewer_el where
  "example_viewer =
     \<lparr>viewer_rect = \<lparr>rect_left = 100, rect_top = 50, rect_width = 800, rect_height = 600\<rparr>\<rparr>"

definition example_page :: page_el where
  "example_page = \<lparr>scrollWidth = 1600, scrollHeight = 1200\<rparr>"

definition example_dom :: dom where
  "example_dom =
     \<lparr>containerRef = Some example_container, viewerRef = Some example_viewer,
      pageRef = Some example_page\<rparr>"

text \<open>A large container of 1800 by 900 pixels showing a small page of 100 by 100 pixels.\<close>

definition small_page_dom :: dom where
  "small_page_dom =
     \<lparr>containerRef =
        Some \<lparr>clientWidth = 1800, clientHeight = 900,
              container_rect = \<lparr>rect_left = 0, rect_top = 0, rect_width = 1800, rect_height = 900\<rparr>\<rparr>,
      viewerRef =
        Some \<lparr>viewer_rect = \<lparr>rect_left = 0, rect_top = 0, rect_width = 1800, rect_height = 900\<rparr>\<rparr>,
      pageRef = Some \<lparr>scrollWidth = 100, scrollHeight = 100\<rparr>\<rparr>"

text \<open>A container of 1440 by 900 pixels showing a page of 595 by 842 pixels.\<close>

definition rounding_container :: container_el where
  "rounding_container =
     \<lparr>clientWidth = 1440, clientHeight = 900,
      container_rect = \<lparr>rect_left = 0, rect_top = 0, rect_width = 1440, rect_height = 900\<rparr>\<rparr>"

definition rounding_page :: page_el where
  "rounding_page = \<lparr>scrollWidth = 595, scrollHeight = 842\<rparr>"

definition rounding_dom :: dom where
  "rounding_dom =
     \<lparr>containerRef = Some rounding_container,
      viewerRef =
        Some \<lparr>viewer_rect = \<lparr>rect_left = 0, rect_top = 0, rect_width = 1440, rect_height = 900\<rparr>\<rparr>,
      pageRef = Some rounding_page\<rparr>"

text \<open>A state in which the first page has been rendered.\<close>

definition loaded_state :: viewer_state where
  "loaded_state = initial_state\<lparr>isLoading := False\<rparr>"

text \<open>A primary-button mouse event at a given client position, without modifier keys.\<close>

definition mouse_at :: "rat \<Rightarrow> rat \<Rightarrow> mouse_event" where
  "mouse_at cx cy = \<lparr>button = 0, clientX = cx, clientY = cy, ctrlKey = False, metaKey = False\<rparr>"

text \<open>A wheel event with the control key held.\<close>

definition ctrl_wheel_at :: "rat \<Rightarrow> rat \<Rightarrow> rat \<Rightarrow> wheel_event" where
  "ctrl_wheel_at cx cy dy =
     \<lparr>button = 0, clientX = cx, clientY = cy, ctrlKey = True, metaKey = False, deltaY = dy\<rparr>"

text \<open>The same state with the pointer inside the container.\<close>

definition focused_state :: viewer_state where
  "focused_state = loaded_state\<lparr>isFocused := True\<rparr>"

text \<open>
  The page cursor of a running viewer: the page number is at least 1, and it is 1 while
  no document has reported its pages.
\<close>

definition cursor_inv :: "viewer_state \<Rightarrow> bool" where
  "cursor_inv s = (1 \<le> pageNumber s \<and> (numPages s = 0 \<longrightarrow> pageNumber s = 1))"

text \<open>
  A focused state whose fit scale and scale are both 5, and a wheel-out event handled
  by a listener that still holds the fit scale 12.
\<close>

definition refit_state :: viewer_state where
  "refit_state = focused_state\<lparr>fitScale := 5, scale := 5\<rparr>"

definition stale_wheel_out :: "dom \<times> event" where
  "stale_wheel_out = (example_dom, Wheel (ctrl_wheel_at 500 350 1) 12)"

text \<open>Relay requests and upstream answers.\<close>

definition example_query :: "(string \<times> string) list" where
  "example_query = [(''url'', ''https://example.org/a.pdf'')]"

definition html_upstream :: upstream_response where
  "html_upstream = \<lparr>up_status = 200, up_content_type = Some ''text/html'',
                     up_arrayBuffer = Some [37, 80, 68, 70]\<rparr>"

definition not_found_upstream :: upstream_response where
  "not_found_upstream = \<lparr>up_status = 404, up_content_type = Some ''application/pdf'',
                          up_arrayBuffer = Some []\<rparr>"

section \<open>Basic facts about the transform applier\<close>

lemma updateTransform_None:
  "viewerRef d = Some v \<Longrightarrow> containerRef d = Some c \<Longrightarrow> pageRef d = Some p \<Longrightarrow>
   updateTransform d s ns None =
     s\<lparr>transform := Some [Translate (pos_x (panOffsetRef s)) (pos_y (panOffsetRef s)), Scale ns]\<rparr>"
  by (simp add: updateTransform_def)

lemma updateTransform_None_fields:
  "scale (updateTransform d s ns None) = scale s"
  "fitScale (updateTransform d s ns None) = fitScale s"
  "panOffsetRef (updateTransform d s ns None) = panOffsetRef s"
  "lastTransformRef (updateTransform d s ns None) = lastTransformRef s"
  "startPanRef (updateTransform d s ns None) = startPanRef s"
  "isPanning (updateTransform d s ns None) = isPanning s"
  by (simp_all add: updateTransform_def split: option.splits)

section \<open>Fit calculator\<close>

subsection \<open>Properties of the rounding\<close>

lemma expo_bounds: "0 < x \<Longrightarrow> 2 powi (expo x) \<le> x \<and> x < 2 powi (expo x + 1)"
proof (induction x rule: expo.induct)
  case (1 x)
  show ?case
  proof (cases "2 \<le> x")
    case True
    then have e: "expo x = expo (x / 2) + 1" by (subst expo.simps) simp
    from "1.IH"(1) [OF True] "1.prems" have
      ih: "2 powi (expo (x / 2)) \<le> x / 2 \<and> x / 2 < 2 powi (expo (x / 2) + 1)" by simp
    have p: "(2::rat) powi (k + 1) = 2 powi k * 2" for k
      by (simp add: power_int_add)
    have "2 powi (expo (x / 2) + 1) \<le> x" using ih by (simp add: p)
    moreover have "x < 2 powi (expo (x / 2) + 1 + 1)"
      using ih by (subst p) simp
    ultimately show ?thesis unfolding e by simp
  next
    case False
    show ?thesis
    proof (cases "0 < x \<and> x < 1")
      case True
      then have e: "expo x = expo (x * 2) - 1" using False by (subst expo.simps) simp
      from "1.IH"(2) [OF False True] "1.prems" have
        ih: "2 powi (expo (x * 2)) \<le> x * 2 \<and> x * 2 < 2 powi (expo (x * 2) + 1)" by simp
      have p: "(2::rat) powi (k + 1) = 2 powi k * 2" for k
        by (simp add: power_int_add)
      have q: "(2::rat) powi (k - 1) = 2 powi k / 2" for k
        by (simp add: power_int_diff)
      have "2 powi (expo (x * 2) - 1) \<le> x" using ih by (simp add: q)
      moreover have "x < 2 powi (expo (x * 2))" using ih by (simp add: p)
      ultimately show ?thesis unfolding e by simp
    next
      case F2: False
      have e: "expo x = 0" by (subst expo.simps) (use False F2 in auto)
      show ?thesis unfolding e using False F2 "1.prems" by simp
    qed
  qed
qed

lemma round_even_error: "\<bar>of_int (round_even y) - y\<bar> \<le> 1 / 2"
proof -
  have f: "of_int \<lfloor>y\<rfloor> \<le> y" "y < of_int \<lfloor>y\<rfloor> + 1" by linarith+
  show ?thesis
    unfolding round_even_def Let_def using f by (auto simp add: abs_le_iff)
qed

lemma round_pos_error:
  assumes "0 < x"
  shows "\<bar>round_pos x - x\<bar> \<le> x / 2 ^ 53"
proof -
  define u :: rat where "u = 2 powi (expo x - 52)"
  have u: "0 < u" by (simp add: u_def)
  have r: "round_pos x = of_int (round_even (x / u)) * u"
    by (simp add: round_pos_def Let_def u_def)
  have "\<bar>of_int (round_even (x / u)) - x / u\<bar> \<le> 1 / 2" by (rule round_even_error)
  then have m: "\<bar>of_int (round_even (x / u)) - x / u\<bar> * u \<le> 1 / 2 * u"
    using u by (intro mult_right_mono) simp_all
  have "of_int (round_even (x / u)) * u - x = (of_int (round_even (x / u)) - x / u) * u"
    using u by (simp add: field_simps)
  then have "\<bar>of_int (round_even (x / u)) * u - x\<bar> = \<bar>of_int (round_even (x / u)) - x / u\<bar> * u"
    using u by (simp add: abs_mult)
  with m have a: "\<bar>round_pos x - x\<bar> \<le> u / 2"
    unfolding r by simp
  have "u = 2 powi (expo x) / 2 ^ 52"
    by (simp add: u_def power_int_diff)
  then have "u / 2 = 2 powi (expo x) / 2 ^ 53" by simp
  also have "\<dots> \<le> x / 2 ^ 53"
    using expo_bounds [OF assms] by (simp add: divide_right_mono)
  finally show ?thesis using a by linarith
qed

lemma binary64_error: "\<bar>binary64 x - x\<bar> \<le> \<bar>x\<bar> / 2 ^ 53"
proof -
  consider "x = 0" | "x < 0" | "0 < x" by linarith
  then show ?thesis
  proof cases
    case 1 then show ?thesis by (simp add: binary64_def)
  next
    case 2
    then have "\<bar>round_pos (- x) - (- x)\<bar> \<le> (- x) / 2 ^ 53" by (intro round_pos_error) simp
    then show ?thesis using 2 by (simp add: binary64_def abs_le_iff)
  next
    case 3
    then show ?thesis using round_pos_error [OF 3] by (simp add: binary64_def)
  qed
qed

lemma round_even_int: "round_even (of_int k) = k"
  by (simp add: round_even_def)

lemma round_pos_int:
  assumes "0 < n" and "n < 2 ^ 53"
  shows "round_pos (of_int n) = of_int n"
proof -
  let ?x = "of_int n :: rat"
  have pos: "0 < ?x" using assms by simp
  note b = expo_bounds [OF pos]
  have "?x < 2 ^ 53" using assms(2) by (metis of_int_less_iff of_int_numeral of_int_power)
  then have "(2::rat) powi (expo ?x) < 2 powi 53" using b by simp
  then have e: "expo ?x < 53" by (rule power_int_le_imp_less_exp [rotated]) simp_all
  define k where "k = nat (52 - expo ?x)"
  have u: "(2::rat) powi (expo ?x - 52) = 1 / 2 ^ k"
    using e by (simp add: k_def power_int_def field_simps)
  have "?x / (1 / 2 ^ k) = of_int (n * 2 ^ k)" by simp
  then have "round_even (?x / (1 / 2 ^ k)) = n * 2 ^ k"
    using round_even_int by metis
  then show ?thesis
    by (simp add: round_pos_def Let_def u)
qed

lemma binary64_int: "\<bar>n\<bar> < 2 ^ 53 \<Longrightarrow> binary64 (of_int n) = of_int n"
  using round_pos_int [of n] round_pos_int [of "- n"]
  by (auto simp add: binary64_def)

lemma binary64_lower:
  assumes "0 < x"
  shows "x - x / 2 ^ 53 \<le> binary64 x"
proof -
  have "\<bar>binary64 x - x\<bar> \<le> x / 2 ^ 53" using binary64_error [of x] assms by simp
  then show ?thesis by linarith
qed

subsection \<open>The fit in exact arithmetic\<close>

text \<open>
  Without rounding the scaled page fits exactly: \<open>pageWidth * fitScale \<le> containerWidth
  - 2 * PADDING\<close> and \<open>pageHeight * fitScale \<le> containerHeight - 2 * PADDING\<close>, with
  equality in at least one dimension.
\<close>

lemma fit_scale_exact_arithmetic:
  assumes "containerRef d = Some c" and "pageRef d = Some p" and "\<not> isLoading s"
    and "scrollWidth p \<noteq> 0" and "scrollHeight p \<noteq> 0"
    and "cw = of_nat (clientWidth c)" and "ch = of_nat (clientHeight c)"
    and "pw = of_nat (scrollWidth p)" and "ph = of_nat (scrollHeight p)"
    and "s' = calculateFitScale d s"
  shows "fitScale s' = min ((cw - 2 * PADDING) / pw) ((ch - 2 * PADDING) / ph)
       \<and> scale s' = fitScale s'
       \<and> panOffsetRef s' = \<lparr>pos_x = (cw - pw * fitScale s') / 2, pos_y = (ch - ph * fitScale s') / 2\<rparr>
       \<and> pw * fitScale s' \<le> cw - 2 * PADDING
       \<and> ph * fitScale s' \<le> ch - 2 * PADDING
       \<and> (pw * fitScale s' = cw - 2 * PADDING \<or> ph * fitScale s' = ch - 2 * PADDING)"
proof -
  let ?f = "min ((cw - 2 * PADDING) / pw) ((ch - 2 * PADDING) / ph)"
  have pos: "0 < pw" "0 < ph" using assms by simp_all
  have f: "fitScale s' = ?f" and sc: "scale s' = ?f"
    and pan: "panOffsetRef s' = \<lparr>pos_x = (cw - pw * ?f) / 2, pos_y = (ch - ph * ?f) / 2\<rparr>"
    using assms
    by (simp_all add: calculateFitScale_def Let_def updateTransform_None_fields mult.commute)
  have w: "pw * ?f \<le> cw - 2 * PADDING"
  proof -
    have "pw * ?f \<le> pw * ((cw - 2 * PADDING) / pw)"
      using pos by (intro mult_left_mono) simp_all
    then show ?thesis using pos by simp
  qed
  have h: "ph * ?f \<le> ch - 2 * PADDING"
  proof -
    have "ph * ?f \<le> ph * ((ch - 2 * PADDING) / ph)"
      using pos by (intro mult_left_mono) simp_all
    then show ?thesis using pos by simp
  qed
  have e: "pw * ?f = cw - 2 * PADDING \<or> ph * ?f = ch - 2 * PADDING"
    using pos
    by (cases "(cw - 2 * PADDING) / pw \<le> (ch - 2 * PADDING) / ph") (simp_all add: min_def)
  show ?thesis using f sc pan w h e by simp
qed

subsection \<open>The fit in double precision\<close>

lemma calculateFitScale_rounded_exact:
  "calculateFitScale_rounded (\<lambda>x. x) d s = calculateFitScale d s"
  by (simp add: calculateFitScale_rounded_def calculateFitScale_def)

lemma binary64_padded:
  assumes "n < 2 ^ 31"
  shows "binary64 (of_nat n - binary64 (PADDING * 2)) = of_nat n - 2 * PADDING"
proof -
  have p: "PADDING * 2 = of_int 40" by (simp add: PADDING_def)
  have b: "binary64 (PADDING * 2) = of_int 40"
    unfolding p by (rule binary64_int) simp
  have i: "(of_nat n :: rat) - of_int 40 = of_int (int n - 40)" by simp
  have "int n < 2 ^ 31" using assms by (metis of_nat_less_iff of_nat_numeral of_nat_power)
  then have "\<bar>int n - 40\<bar> < 2 ^ 53" by simp
  then have "binary64 (of_int (int n - 40)) = of_int (int n - 40)" by (rule binary64_int)
  then show ?thesis unfolding b i by (simp add: PADDING_def)
qed

lemma calculateFitScale_rounded_fields:
  assumes "containerRef d = Some c" and "pageRef d = Some p" and "\<not> isLoading s"
  shows "fitScale (calculateFitScale_rounded rnd d s) =
           min (rnd (rnd (of_nat (clientWidth c) - rnd (PADDING * 2)) / of_nat (scrollWidth p)))
               (rnd (rnd (of_nat (clientHeight c) - rnd (PADDING * 2)) / of_nat (scrollHeight p)))"
    and "scale (calculateFitScale_rounded rnd d s) = fitScale (calculateFitScale_rounded rnd d s)"
    and "panOffsetRef (calculateFitScale_rounded rnd d s) =
           \<lparr>pos_x = rnd (rnd (of_nat (clientWidth c)
                       - rnd (of_nat (scrollWidth p) * fitScale (calculateFitScale_rounded rnd d s))) / 2),
            pos_y = rnd (rnd (of_nat (clientHeight c)
                       - rnd (of_nat (scrollHeight p) * fitScale (calculateFitScale_rounded rnd d s))) / 2)\<rparr>"
  using assms
  by (simp_all add: calculateFitScale_rounded_def Let_def updateTransform_None_fields)

lemma rounded_quotient_bounds:
  fixes a w :: rat
  assumes "0 < w"
  shows "w * binary64 (a / w) \<le> a + \<bar>a\<bar> / 2 ^ 53"
    and "\<bar>w * binary64 (a / w) - a\<bar> \<le> \<bar>a\<bar> / 2 ^ 53"
proof -
  have e: "\<bar>binary64 (a / w) - a / w\<bar> \<le> \<bar>a / w\<bar> / 2 ^ 53" by (rule binary64_error)
  have "w * binary64 (a / w) - a = w * (binary64 (a / w) - a / w)"
    using assms by (simp add: field_simps)
  then have "\<bar>w * binary64 (a / w) - a\<bar> = w * \<bar>binary64 (a / w) - a / w\<bar>"
    using assms by (simp add: abs_mult)
  also have "\<dots> \<le> w * (\<bar>a / w\<bar> / 2 ^ 53)"
    using e assms by (intro mult_left_mono) simp_all
  also have "\<dots> = \<bar>a\<bar> / 2 ^ 53"
    using assms by simp
  finally show 2: "\<bar>w * binary64 (a / w) - a\<bar> \<le> \<bar>a\<bar> / 2 ^ 53" .
  then show "w * binary64 (a / w) \<le> a + \<bar>a\<bar> / 2 ^ 53" by linarith
qed

text \<open>
  Claim C1, as amended. When the container and the page are mounted, loading has
  finished and the page's measured width and height are non-zero (all sizes being
  32-bit DOM integers), \<^verbatim>\<open>calculateFitScale\<close> stores
  \<open>fitScale = min ((containerWidth - 2 * PADDING) / pageWidth)
  ((containerHeight - 2 * PADDING) / pageHeight)\<close>, each quotient rounded to a double,
  with no floor or ceiling, sets the scale to it, and stores the centred offset
  \<open>((containerWidth - pageWidth * fitScale) / 2, (containerHeight - pageHeight * fitScale) / 2)\<close>,
  each operation rounded. The scaled page fits up to the rounding of the quotient:
  \<open>pageWidth * fitScale\<close> exceeds \<open>containerWidth - 2 * PADDING\<close> by at most its
  \<open>2 ^ 53\<close>-th part, likewise for the height, and in at least one dimension the two
  differ by no more than that.
\<close>

theorem fit_scale_correct:
  assumes "containerRef d = Some c" and "pageRef d = Some p" and "\<not> isLoading s"
    and "scrollWidth p \<noteq> 0" and "scrollHeight p \<noteq> 0"
    and "clientWidth c < 2 ^ 31" and "clientHeight c < 2 ^ 31"
    and "scrollWidth p < 2 ^ 31" and "scrollHeight p < 2 ^ 31"
    and "cw = of_nat (clientWidth c)" and "ch = of_nat (clientHeight c)"
    and "pw = of_nat (scrollWidth p)" and "ph = of_nat (scrollHeight p)"
    and "s' = calculateFitScale_rounded binary64 d s"
  shows "fitScale s' = min (binary64 ((cw - 2 * PADDING) / pw)) (binary64 ((ch - 2 * PADDING) / ph))
       \<and> scale s' = fitScale s'
       \<and> panOffsetRef s' =
           \<lparr>pos_x = binary64 (binary64 (cw - binary64 (pw * fitScale s')) / 2),
            pos_y = binary64 (binary64 (ch - binary64 (ph * fitScale s')) / 2)\<rparr>
       \<and> pw * fitScale s' \<le> (cw - 2 * PADDING) + \<bar>cw - 2 * PADDING\<bar> / 2 ^ 53
       \<and> ph * fitScale s' \<le> (ch - 2 * PADDING) + \<bar>ch - 2 * PADDING\<bar> / 2 ^ 53
       \<and> (\<bar>pw * fitScale s' - (cw - 2 * PADDING)\<bar> \<le> \<bar>cw - 2 * PADDING\<bar> / 2 ^ 53
          \<or> \<bar>ph * fitScale s' - (ch - 2 * PADDING)\<bar> \<le> \<bar>ch - 2 * PADDING\<bar> / 2 ^ 53)"
proof -
  let ?fw = "binary64 ((cw - 2 * PADDING) / pw)" and ?fh = "binary64 ((ch - 2 * PADDING) / ph)"
  have pos: "0 < pw" "0 < ph" using assms(4,5,12,13) by simp_all
  note fld = calculateFitScale_rounded_fields [OF assms(1-3), of binary64]
  have aw: "binary64 (cw - binary64 (PADDING * 2)) = cw - 2 * PADDING"
    unfolding assms(10) by (rule binary64_padded [OF assms(6)])
  have ah: "binary64 (ch - binary64 (PADDING * 2)) = ch - 2 * PADDING"
    unfolding assms(11) by (rule binary64_padded [OF assms(7)])
  have f: "fitScale s' = min ?fw ?fh"
    using fld(1) aw ah by (simp add: assms(10-14))
  have sc: "scale s' = fitScale s'" using fld(2) by (simp add: assms(14))
  have pan: "panOffsetRef s' =
           \<lparr>pos_x = binary64 (binary64 (cw - binary64 (pw * fitScale s')) / 2),
            pos_y = binary64 (binary64 (ch - binary64 (ph * fitScale s')) / 2)\<rparr>"
    using fld(3) by (simp add: assms(10-14))
  note qw = rounded_quotient_bounds [OF pos(1), of "cw - 2 * PADDING"]
  note qh = rounded_quotient_bounds [OF pos(2), of "ch - 2 * PADDING"]
  have w: "pw * min ?fw ?fh \<le> (cw - 2 * PADDING) + \<bar>cw - 2 * PADDING\<bar> / 2 ^ 53"
  proof -
    have "pw * min ?fw ?fh \<le> pw * ?fw" using pos by (intro mult_left_mono) simp_all
    then show ?thesis using qw(1) by linarith
  qed
  have h: "ph * min ?fw ?fh \<le> (ch - 2 * PADDING) + \<bar>ch - 2 * PADDING\<bar> / 2 ^ 53"
  proof -
    have "ph * min ?fw ?fh \<le> ph * ?fh" using pos by (intro mult_left_mono) simp_all
    then show ?thesis using qh(1) by linarith
  qed
  have e: "\<bar>pw * min ?fw ?fh - (cw - 2 * PADDING)\<bar> \<le> \<bar>cw - 2 * PADDING\<bar> / 2 ^ 53
          \<or> \<bar>ph * min ?fw ?fh - (ch - 2 * PADDING)\<bar> \<le> \<bar>ch - 2 * PADDING\<bar> / 2 ^ 53"
  proof (cases "?fw \<le> ?fh")
    case True
    then have "min ?fw ?fh = ?fw" by simp
    then show ?thesis using qw(2) by simp
  next
    case False
    then have "min ?fw ?fh = ?fh" by simp
    then show ?thesis using qh(2) by simp
  qed
  show ?thesis using f sc pan w h e by simp
qed

text \<open>
  The specification's worked example: container 800 by 600, page 1600 by 1200, padding
  20. The candidates are the doubles nearest to 19/40 and 7/15; the fit scale is the
  latter, \<open>8406719304424926 / 2 ^ 54\<close> (0.4666666666666667).
\<close>

lemma floor_7_15: "\<lfloor>(126100789566373888::rat) / 15\<rfloor> = 8406719304424925"
  by (rule floor_unique) simp_all

lemma floor_19_40: "\<lfloor>(42784196460019712::rat) / 5\<rfloor> = 8556839292003942"
  by (rule floor_unique) simp_all

lemma binary64_7_15: "binary64 (7 / 15) = 8406719304424926 / 2 ^ 54"
  by (simp add: binary64_def round_pos_def round_even_def Let_def expo.simps power_int_minus
      floor_7_15)

lemma binary64_19_40: "binary64 (19 / 40) = 8556839292003942 / 2 ^ 54"
  by (simp add: binary64_def round_pos_def round_even_def Let_def expo.simps power_int_minus
      floor_19_40)

theorem fit_scale_correct_witness:
  "containerRef example_dom = Some example_container \<and> pageRef example_dom = Some example_page
   \<and> \<not> isLoading loaded_state
   \<and> scrollWidth example_page \<noteq> 0 \<and> scrollHeight example_page \<noteq> 0
   \<and> clientWidth example_container < 2 ^ 31 \<and> clientHeight example_container < 2 ^ 31
   \<and> scrollWidth example_page < 2 ^ 31 \<and> scrollHeight example_page < 2 ^ 31
   \<and> fitScale (calculateFitScale_rounded binary64 example_dom loaded_state)
        = 8406719304424926 / 2 ^ 54
   \<and> scale (calculateFitScale_rounded binary64 example_dom loaded_state)
        = 8406719304424926 / 2 ^ 54
   \<and> 1600 * fitScale (calculateFitScale_rounded binary64 example_dom loaded_state)
        \<le> 760 + 760 / 2 ^ 53
   \<and> 1200 * fitScale (calculateFitScale_rounded binary64 example_dom loaded_state)
        \<le> 560 + 560 / 2 ^ 53"
proof -
  have c: "containerRef example_dom = Some example_container"
    and p: "pageRef example_dom = Some example_page"
    by (simp_all add: example_dom_def)
  have l: "\<not> isLoading loaded_state" by (simp add: loaded_state_def)
  have nz: "scrollWidth example_page \<noteq> 0" "scrollHeight example_page \<noteq> 0"
    by (simp_all add: example_page_def)
  have sm: "clientWidth example_container < 2 ^ 31" "clientHeight example_container < 2 ^ 31"
    "scrollWidth example_page < 2 ^ 31" "scrollHeight example_page < 2 ^ 31"
    by (simp_all add: example_container_def example_page_def)
  have dims: "rat_of_nat (clientWidth example_container) = 800"
    "rat_of_nat (clientHeight example_container) = 600"
    "rat_of_nat (scrollWidth example_page) = 1600"
    "rat_of_nat (scrollHeight example_page) = 1200"
    by (simp_all add: example_container_def example_page_def)
  have q: "((800::rat) - 2 * 20) / 1600 = 19 / 40" "((600::rat) - 2 * 20) / 1200 = 7 / 15"
    by simp_all
  have m: "min (binary64 (19 / 40)) (binary64 (7 / 15)) = 8406719304424926 / 2 ^ 54"
    by (simp add: binary64_19_40 binary64_7_15)
  note t = fit_scale_correct [OF c p l nz sm refl refl refl refl refl,
      unfolded dims PADDING_def q m]
  from t have f: "fitScale (calculateFitScale_rounded binary64 example_dom loaded_state)
      = 8406719304424926 / 2 ^ 54"
    by (rule conjunct1)
  from t have sc: "scale (calculateFitScale_rounded binary64 example_dom loaded_state)
      = 8406719304424926 / 2 ^ 54"
    unfolding f by simp
  have b: "1600 * fitScale (calculateFitScale_rounded binary64 example_dom loaded_state)
        \<le> 760 + 760 / 2 ^ 53"
    "1200 * fitScale (calculateFitScale_rounded binary64 example_dom loaded_state)
        \<le> 560 + 560 / 2 ^ 53"
    using t by simp_all
  show ?thesis using c p l nz sm f sc b by simp
qed

text \<open>
  The claim as stated, with exact bounds, fails: for a container of 1440 by 900 and a
  page of 595 by 842 the height candidate 860/842 is rounded up to
  \<open>4599876103965115 / 2 ^ 52\<close> (1.0213776722090262), so \<open>842 * fitScale\<close> exceeds
  860, and neither dimension is met with equality. Both candidates are non-negative.
\<close>

lemma floor_430_421: "\<lfloor>(1936547839769313280::rat) / 421\<rfloor> = 4599876103965114"
  by (rule floor_unique) simp_all

lemma binary64_430_421: "binary64 (430 / 421) = 4599876103965115 / 2 ^ 52"
  by (simp add: binary64_def round_pos_def round_even_def Let_def expo.simps power_int_minus
      floor_430_421)

theorem fit_scale_rounding_counterexample:
  "scrollWidth rounding_page \<noteq> 0 \<and> scrollHeight rounding_page \<noteq> 0
   \<and> 0 \<le> (1440 - 2 * PADDING) / 595 \<and> 0 \<le> (900 - 2 * PADDING) / 842
   \<and> fitScale (calculateFitScale_rounded binary64 rounding_dom loaded_state)
        = 4599876103965115 / 2 ^ 52
   \<and> \<not> (842 * fitScale (calculateFitScale_rounded binary64 rounding_dom loaded_state)
          \<le> 900 - 2 * PADDING)
   \<and> 595 * fitScale (calculateFitScale_rounded binary64 rounding_dom loaded_state)
        \<noteq> 1440 - 2 * PADDING
   \<and> 842 * fitScale (calculateFitScale_rounded binary64 rounding_dom loaded_state)
        \<noteq> 900 - 2 * PADDING"
proof -
  have c: "containerRef rounding_dom = Some rounding_container"
    and p: "pageRef rounding_dom = Some rounding_page"
    by (simp_all add: rounding_dom_def)
  have l: "\<not> isLoading loaded_state" by (simp add: loaded_state_def)
  have dims: "rat_of_nat (clientWidth rounding_container) = 1440"
    "rat_of_nat (clientHeight rounding_container) = 900"
    "rat_of_nat (scrollWidth rounding_page) = 595"
    "rat_of_nat (scrollHeight rounding_page) = 842"
    by (simp_all add: rounding_container_def rounding_page_def)
  have i: "binary64 (PADDING * 2) = 40" "binary64 1400 = 1400" "binary64 860 = 860"
    using binary64_int [of 40] binary64_int [of 1400] binary64_int [of 860]
    by (simp_all add: PADDING_def)
  have big: "2 \<le> binary64 (40 / 17)"
    using binary64_lower [of "40 / 17"] by simp
  have f: "fitScale (calculateFitScale_rounded binary64 rounding_dom loaded_state)
      = 4599876103965115 / 2 ^ 52"
    using calculateFitScale_rounded_fields(1) [OF c p l, of binary64] big
    by (simp add: dims i binary64_430_421)
  show ?thesis unfolding f by (simp add: rounding_page_def PADDING_def)
qed

section \<open>Cursor-anchored wheel zoom\<close>

text \<open>
  Claim C2. For a wheel event with the control or meta key held, the pointer inside the
  container, the container and viewer mounted and an old scale \<open>s > 0\<close>: let
  \<open>(mouseX, mouseY)\<close> be the cursor in container pixels and
  \<open>point = (mouse - panOffset) / s\<close> the world point under it, so that
  \<open>point * s + panOffset = mouse\<close> before the zoom. \<^verbatim>\<open>handleWheel\<close> stores the new
  scale \<open>s'\<close> (times 1.1 capped at 5 for a negative \<open>deltaY\<close>, otherwise divided by 1.1
  and floored at half the fit scale) and the pan offset \<open>mouse - point * s'\<close>, hence
  \<open>point * s' + panOffset' = mouse\<close>: the point is drawn at the same pixel. The
  transform written is the translation by the new offset followed by the new scale.
\<close>

theorem wheel_zoom_anchor:
  assumes "ctrlKey e \<or> metaKey e" and "isFocused s"
    and "containerRef d = Some c" and "viewerRef d = Some v"
    and "0 < scale s"
    and "mouseX = clientX e - rect_left (container_rect c)"
    and "mouseY = clientY e - rect_top (container_rect c)"
    and "pointX = (mouseX - pos_x (panOffsetRef s)) / scale s"
    and "pointY = (mouseY - pos_y (panOffsetRef s)) / scale s"
    and "s' = handleWheel d e s"
  shows "pointX * scale s + pos_x (panOffsetRef s) = mouseX
       \<and> pointY * scale s + pos_y (panOffsetRef s) = mouseY
       \<and> scale s' = (if deltaY e < 0 then min 5 (scale s * (11 / 10))
                      else max (fitScale s * (1 / 2)) (scale s / (11 / 10)))
       \<and> panOffsetRef s' = \<lparr>pos_x = mouseX - pointX * scale s', pos_y = mouseY - pointY * scale s'\<rparr>
       \<and> pointX * scale s' + pos_x (panOffsetRef s') = mouseX
       \<and> pointY * scale s' + pos_y (panOffsetRef s') = mouseY
       \<and> transform s' =
           (if pageRef d = None then transform s
            else Some [Translate (pos_x (panOffsetRef s')) (pos_y (panOffsetRef s')), Scale (scale s')])"
proof -
  have before: "pointX * scale s + pos_x (panOffsetRef s) = mouseX"
    "pointY * scale s + pos_y (panOffsetRef s) = mouseY"
    using assms(5,8,9) by simp_all
  let ?ns = "if deltaY e < 0 then min 5 (scale s * (11 / 10))
             else max (fitScale s * (1 / 2)) (scale s / (11 / 10))"
  have sc: "scale s' = ?ns"
    using assms(1-4,10) by (simp add: handleWheel_def Let_def)
  have pan: "panOffsetRef s' = \<lparr>pos_x = mouseX - pointX * ?ns, pos_y = mouseY - pointY * ?ns\<rparr>"
    using assms(1-4,6-10)
    by (simp add: handleWheel_def Let_def updateTransform_None_fields)
  have tr: "transform s' =
           (if pageRef d = None then transform s
            else Some [Translate (mouseX - pointX * ?ns) (mouseY - pointY * ?ns), Scale ?ns])"
    using assms(1-4,6-10)
    by (auto simp add: handleWheel_def Let_def updateTransform_def)
  show ?thesis unfolding sc pan using before tr by simp
qed

theorem wheel_zoom_anchor_witness:
  "(ctrlKey (ctrl_wheel_at 500 350 (- 1)) \<or> metaKey (ctrl_wheel_at 500 350 (- 1)))
   \<and> isFocused focused_state
   \<and> containerRef example_dom = Some example_container
   \<and> viewerRef example_dom = Some example_viewer
   \<and> 0 < scale focused_state
   \<and> scale (handleWheel example_dom (ctrl_wheel_at 500 350 (- 1)) focused_state) = 11 / 10
   \<and> panOffsetRef (handleWheel example_dom (ctrl_wheel_at 500 350 (- 1)) focused_state)
        = \<lparr>pos_x = - 40, pos_y = - 30\<rparr>
   \<and> (400 :: rat) * (11 / 10) + (- 40) = 500 - 100"
proof -
  let ?e = "ctrl_wheel_at 500 350 (- 1)"
  have k: "ctrlKey ?e \<or> metaKey ?e" by (simp add: ctrl_wheel_at_def)
  have f: "isFocused focused_state" by (simp add: focused_state_def)
  have c: "containerRef example_dom = Some example_container"
    and v: "viewerRef example_dom = Some example_viewer"
    by (simp_all add: example_dom_def)
  have sc: "0 < scale focused_state"
    by (simp add: focused_state_def loaded_state_def initial_state_def)
  have vals: "clientX ?e - rect_left (container_rect example_container) = 400"
    "clientY ?e - rect_top (container_rect example_container) = 300"
    "pos_x (panOffsetRef focused_state) = 0" "pos_y (panOffsetRef focused_state) = 0"
    "scale focused_state = 1" "deltaY ?e < 0"
    by (simp_all add: ctrl_wheel_at_def example_container_def focused_state_def
        loaded_state_def initial_state_def origin_def)
  note t = wheel_zoom_anchor [OF k f c v sc refl refl refl refl refl, unfolded vals]
  from t have s': "scale (handleWheel example_dom ?e focused_state) = 11 / 10"
    using vals(6) by simp
  from t have p': "panOffsetRef (handleWheel example_dom ?e focused_state)
      = \<lparr>pos_x = - 40, pos_y = - 30\<rparr>"
    unfolding s' by simp
  show ?thesis using k f c v sc s' p' by simp
qed

section \<open>Button zoom\<close>

lemma zoom_in_scale_pos: "0 < (k::rat) \<Longrightarrow> 0 < min 5 (k * (11 / 10))"
  by simp

lemma zoom_out_scale_pos: "0 < (k::rat) \<Longrightarrow> 0 < max (f * (1 / 2)) (k / (11 / 10))"
  by (simp add: max_def)

text \<open>
  Claim C5. With the three elements mounted, a container of non-zero width and height
  and a scale \<open>s > 0\<close>, \<^verbatim>\<open>handleZoomIn\<close> and \<^verbatim>\<open>handleZoomOut\<close> pass the centre of the
  container's rectangle as zoom origin (they take no pointer event), so the origin's
  relative position is \<open>(1/2, 1/2)\<close>, and they move the pan offset by
  \<open>(viewerWidth / newScale - viewerWidth / oldScale) * relX\<close> and
  \<open>(viewerHeight / newScale - viewerHeight / oldScale) * relY\<close>, where the new scale is
  \<open>min 5 (s * 1.1)\<close> for zoom-in and \<open>max (fitScale * 0.5) (s / 1.1)\<close> for zoom-out.
  Without a zoom origin \<^verbatim>\<open>updateTransform\<close> leaves the pan offset as it is and writes
  the translation by it followed by the scale.
\<close>

theorem button_zoom_center_anchor:
  assumes "containerRef d = Some c" and "viewerRef d = Some v" and "pageRef d = Some p"
    and "rect_width (container_rect c) \<noteq> 0" and "rect_height (container_rect c) \<noteq> 0"
    and "0 < scale s"
    and "centerX = rect_left (container_rect c) + rect_width (container_rect c) / 2"
    and "centerY = rect_top (container_rect c) + rect_height (container_rect c) / 2"
    and "relX = (centerX - rect_left (container_rect c)) / rect_width (container_rect c)"
    and "relY = (centerY - rect_top (container_rect c)) / rect_height (container_rect c)"
    and "vw = rect_width (viewer_rect v)" and "vh = rect_height (viewer_rect v)"
    and "zin = min 5 (scale s * (11 / 10))"
    and "zout = max (fitScale s * (1 / 2)) (scale s / (11 / 10))"
  shows "relX = 1 / 2 \<and> relY = 1 / 2 \<and> zin \<noteq> 0 \<and> zout \<noteq> 0
       \<and> scale (handleZoomIn d s) = zin
       \<and> panOffsetRef (handleZoomIn d s) =
           \<lparr>pos_x = pos_x (panOffsetRef s) + (vw / zin - vw / scale s) * relX,
            pos_y = pos_y (panOffsetRef s) + (vh / zin - vh / scale s) * relY\<rparr>
       \<and> transform (handleZoomIn d s) =
           Some [Translate (pos_x (panOffsetRef (handleZoomIn d s)))
                   (pos_y (panOffsetRef (handleZoomIn d s))), Scale zin]
       \<and> scale (handleZoomOut d s) = zout
       \<and> panOffsetRef (handleZoomOut d s) =
           \<lparr>pos_x = pos_x (panOffsetRef s) + (vw / zout - vw / scale s) * relX,
            pos_y = pos_y (panOffsetRef s) + (vh / zout - vh / scale s) * relY\<rparr>
       \<and> transform (handleZoomOut d s) =
           Some [Translate (pos_x (panOffsetRef (handleZoomOut d s)))
                   (pos_y (panOffsetRef (handleZoomOut d s))), Scale zout]
       \<and> updateTransform d s k None =
           s\<lparr>transform := Some [Translate (pos_x (panOffsetRef s)) (pos_y (panOffsetRef s)), Scale k]\<rparr>"
proof -
  have rel: "relX = 1 / 2" "relY = 1 / 2"
    using assms(4,5,7-10) by simp_all
  have nz: "zin \<noteq> 0" "zout \<noteq> 0"
    using zoom_in_scale_pos [OF assms(6)] zoom_out_scale_pos [OF assms(6), of "fitScale s"] assms(13,14)
    by simp_all
  have zi: "scale (handleZoomIn d s) = zin"
    "panOffsetRef (handleZoomIn d s) =
           \<lparr>pos_x = pos_x (panOffsetRef s) + (vw / zin - vw / scale s) * relX,
            pos_y = pos_y (panOffsetRef s) + (vh / zin - vh / scale s) * relY\<rparr>"
    "transform (handleZoomIn d s) =
           Some [Translate (pos_x (panOffsetRef (handleZoomIn d s)))
                   (pos_y (panOffsetRef (handleZoomIn d s))), Scale zin]"
    using assms(1-3,7-13)
    by (simp_all add: handleZoomIn_def updateTransform_def Let_def)
  have zo: "scale (handleZoomOut d s) = zout"
    "panOffsetRef (handleZoomOut d s) =
           \<lparr>pos_x = pos_x (panOffsetRef s) + (vw / zout - vw / scale s) * relX,
            pos_y = pos_y (panOffsetRef s) + (vh / zout - vh / scale s) * relY\<rparr>"
    "transform (handleZoomOut d s) =
           Some [Translate (pos_x (panOffsetRef (handleZoomOut d s)))
                   (pos_y (panOffsetRef (handleZoomOut d s))), Scale zout]"
    using assms(1-3,7-12,14)
    by (simp_all add: handleZoomOut_def updateTransform_def Let_def)
  have ut: "updateTransform d s k None =
           s\<lparr>transform := Some [Translate (pos_x (panOffsetRef s)) (pos_y (panOffsetRef s)), Scale k]\<rparr>"
    using assms(1-3) by (simp add: updateTransform_def)
  show ?thesis using rel nz zi zo ut by blast
qed

theorem button_zoom_center_anchor_witness:
  "containerRef example_dom = Some example_container
   \<and> viewerRef example_dom = Some example_viewer
   \<and> pageRef example_dom = Some example_page
   \<and> rect_width (container_rect example_container) \<noteq> 0
   \<and> rect_height (container_rect example_container) \<noteq> 0
   \<and> 0 < scale loaded_state
   \<and> scale (handleZoomIn example_dom loaded_state) = 11 / 10
   \<and> panOffsetRef (handleZoomIn example_dom loaded_state)
        = \<lparr>pos_x = - (400 / 11), pos_y = - (300 / 11)\<rparr>
   \<and> scale (handleZoomOut example_dom loaded_state) = 10 / 11
   \<and> panOffsetRef (handleZoomOut example_dom loaded_state) = \<lparr>pos_x = 40, pos_y = 30\<rparr>"
proof -
  have c: "containerRef example_dom = Some example_container"
    and v: "viewerRef example_dom = Some example_viewer"
    and p: "pageRef example_dom = Some example_page"
    by (simp_all add: example_dom_def)
  have nz: "rect_width (container_rect example_container) \<noteq> 0"
    "rect_height (container_rect example_container) \<noteq> 0"
    by (simp_all add: example_container_def)
  have sc: "0 < scale loaded_state" by (simp add: loaded_state_def initial_state_def)
  have vals: "rect_width (viewer_rect example_viewer) = 800"
    "rect_height (viewer_rect example_viewer) = 600"
    "scale loaded_state = 1" "fitScale loaded_state = 1"
    "pos_x (panOffsetRef loaded_state) = 0" "pos_y (panOffsetRef loaded_state) = 0"
    by (simp_all add: example_viewer_def loaded_state_def initial_state_def origin_def)
  have z: "min (5::rat) (1 * (11 / 10)) = 11 / 10" "max ((1::rat) * (1 / 2)) (1 / (11 / 10)) = 10 / 11"
    by simp_all
  note t = button_zoom_center_anchor [OF c v p nz sc refl refl refl refl refl refl refl refl,
      unfolded vals z]
  from t have r: "(rect_left (container_rect example_container)
        + rect_width (container_rect example_container) / 2
        - rect_left (container_rect example_container))
       / rect_width (container_rect example_container) = 1 / 2"
    "(rect_top (container_rect example_container)
        + rect_height (container_rect example_container) / 2
        - rect_top (container_rect example_container))
       / rect_height (container_rect example_container) = 1 / 2"
    by blast+
  note u = t [unfolded r]
  from u have zi: "scale (handleZoomIn example_dom loaded_state) = 11 / 10"
    and zo: "scale (handleZoomOut example_dom loaded_state) = 10 / 11"
    by blast+
  from u have pi: "panOffsetRef (handleZoomIn example_dom loaded_state)
        = \<lparr>pos_x = - (400 / 11), pos_y = - (300 / 11)\<rparr>"
    by simp
  from u have po: "panOffsetRef (handleZoomOut example_dom loaded_state) = \<lparr>pos_x = 40, pos_y = 30\<rparr>"
    by simp
  show ?thesis using c v p nz sc zi zo pi po by simp
qed

section \<open>Zoom bounds\<close>

lemma handleWheel_fitScale: "fitScale (handleWheel d e s) = fitScale s"
  by (simp add: handleWheel_def Let_def updateTransform_None_fields split: option.splits)

lemma handleWheel_scale:
  "scale (handleWheel d e s) = scale s
   \<or> scale (handleWheel d e s) = min 5 (scale s * (11 / 10))
   \<or> scale (handleWheel d e s) = max (fitScale s * (1 / 2)) (scale s / (11 / 10))"
  by (simp add: handleWheel_def Let_def split: option.splits)

lemma updateTransform_fitScale: "fitScale (updateTransform d s k zo) = fitScale s"
  by (simp add: updateTransform_def Let_def split: option.splits)

lemma clickZoomIn_fitScale: "fitScale (clickZoomIn d s) = fitScale s"
  by (simp add: clickZoomIn_def handleZoomIn_def Let_def updateTransform_fitScale split: option.splits)

lemma clickZoomOut_fitScale: "fitScale (clickZoomOut d s) = fitScale s"
  by (simp add: clickZoomOut_def handleZoomOut_def Let_def updateTransform_fitScale split: option.splits)

lemma clickZoomIn_scale:
  "scale (clickZoomIn d s) = scale s \<or> scale (clickZoomIn d s) = min 5 (scale s * (11 / 10))"
  by (simp add: clickZoomIn_def handleZoomIn_def Let_def split: option.splits)

lemma clickZoomOut_scale:
  "scale (clickZoomOut d s) = scale s
   \<or> scale (clickZoomOut d s) = max (fitScale s * (1 / 2)) (scale s / (11 / 10))"
  by (simp add: clickZoomOut_def handleZoomOut_def Let_def split: option.splits)

lemma clickZoomOut_scale_enabled:
  "containerRef d \<noteq> None \<Longrightarrow> \<not> zoomOutDisabled s \<Longrightarrow>
   scale (clickZoomOut d s) = max (fitScale s * (1 / 2)) (scale s / (11 / 10))"
  by (auto simp add: clickZoomOut_def handleZoomOut_def Let_def)

lemma zoom_in_within:
  assumes "0 \<le> (f::rat)" and "f * (1 / 2) \<le> k" and "k \<le> 5"
  shows "f * (1 / 2) \<le> min 5 (k * (11 / 10)) \<and> min 5 (k * (11 / 10)) \<le> 5"
  using assms by simp

lemma zoom_out_within:
  assumes "0 \<le> (f::rat)" and "f * (1 / 2) \<le> k" and "k \<le> 5"
  shows "f * (1 / 2) \<le> max (f * (1 / 2)) (k / (11 / 10)) \<and> max (f * (1 / 2)) (k / (11 / 10)) \<le> 5"
  using assms by simp

lemma fresh_wheel_step:
  "step (d, Wheel e (fitScale s)) s = handleWheel d e s"
  by (simp add: handleWheel_fitScale [symmetric])

lemma zoom_step_bounds:
  assumes "is_zoom ev" and "listener_holds (fitScale s) ev"
    and "0 \<le> fitScale s" and "fitScale s * (1 / 2) \<le> scale s" and "scale s \<le> 5"
  shows "fitScale (step ev s) = fitScale s
       \<and> fitScale s * (1 / 2) \<le> scale (step ev s) \<and> scale (step ev s) \<le> 5"
proof (cases ev)
  case (Pair d e)
  note zi = zoom_in_within [OF assms(3-5)] and zo = zoom_out_within [OF assms(3-5)]
  show ?thesis
  proof (cases e)
    case (Wheel w lf)
    with Pair assms(2) have "lf = fitScale s" by simp
    then have "step ev s = handleWheel d w s"
      using Pair Wheel fresh_wheel_step [of d w s] by simp
    then show ?thesis
      using handleWheel_scale [of d w s] zi zo assms(4,5)
      by (auto simp add: handleWheel_fitScale)
  next
    case ClickZoomIn
    then show ?thesis
      using Pair clickZoomIn_scale [of d s] zi assms(4,5)
      by (auto simp add: clickZoomIn_fitScale)
  next
    case ClickZoomOut
    then show ?thesis
      using Pair clickZoomOut_scale [of d s] zo assms(4,5)
      by (auto simp add: clickZoomOut_fitScale)
  qed (use Pair assms(1) in simp_all)
qed

text \<open>
  Claim C3, as amended. Zoom-in only applies the ceiling 5 and zoom-out only the floor
  \<open>fitScale * 0.5\<close>, and the fit computation applies neither. So the interval is an
  invariant of the zoom operations rather than a property of every state: from a state
  with \<open>0 \<le> fitScale\<close> whose scale lies in \<open>[fitScale * 0.5, 5]\<close> (the initial state,
  and the state after a fit or a reset when \<open>0 \<le> fitScale \<le> 5\<close>), every sequence of
  wheel and button zoom operations whose wheel listeners hold the current fit scale
  leaves the fit scale unchanged and the scale in \<open>[fitScale * 0.5, 5]\<close>. The
  statement holds for every sequence, hence after each operation of a sequence. What a
  wheel listener with an outdated fit scale does is left open here; \<open>stale_listener_zoom_out\<close>
  below shows it.
\<close>

theorem zoom_sequence_within_bounds:
  assumes "list_all is_zoom ops" and "list_all (listener_holds (fitScale s)) ops"
    and "0 \<le> fitScale s" and "fitScale s * (1 / 2) \<le> scale s" and "scale s \<le> 5"
  shows "fitScale (run ops s) = fitScale s
       \<and> fitScale s * (1 / 2) \<le> scale (run ops s) \<and> scale (run ops s) \<le> 5"
  using assms
proof (induction ops arbitrary: s)
  case Nil
  then show ?case by simp
next
  case (Cons ev ops)
  from Cons.prems have z: "is_zoom ev" and rest: "list_all is_zoom ops"
    and l: "listener_holds (fitScale s) ev"
    and lrest: "list_all (listener_holds (fitScale s)) ops"
    by simp_all
  note st = zoom_step_bounds [OF z l Cons.prems(3-5)]
  from st have 0: "list_all (listener_holds (fitScale (step ev s))) ops"
    using lrest by simp
  from st have 1: "0 \<le> fitScale (step ev s)"
    and 2: "fitScale (step ev s) * (1 / 2) \<le> scale (step ev s)"
    and 3: "scale (step ev s) \<le> 5"
    using Cons.prems(3) by simp_all
  from Cons.IH [OF rest 0 1 2 3] st show ?case by simp
qed

theorem zoom_sequence_within_bounds_witness:
  "list_all is_zoom [(example_dom, Wheel (ctrl_wheel_at 500 350 (- 1)) 1), (example_dom, ClickZoomOut)]
   \<and> list_all (listener_holds (fitScale focused_state))
        [(example_dom, Wheel (ctrl_wheel_at 500 350 (- 1)) 1), (example_dom, ClickZoomOut)]
   \<and> 0 \<le> fitScale focused_state
   \<and> fitScale focused_state * (1 / 2) \<le> scale focused_state
   \<and> scale focused_state \<le> 5
   \<and> fitScale (run [(example_dom, Wheel (ctrl_wheel_at 500 350 (- 1)) 1), (example_dom, ClickZoomOut)]
         focused_state) = 1
   \<and> 1 / 2 \<le> scale (run [(example_dom, Wheel (ctrl_wheel_at 500 350 (- 1)) 1), (example_dom, ClickZoomOut)]
         focused_state)
   \<and> scale (run [(example_dom, Wheel (ctrl_wheel_at 500 350 (- 1)) 1), (example_dom, ClickZoomOut)]
         focused_state) \<le> 5"
proof -
  let ?ops = "[(example_dom, Wheel (ctrl_wheel_at 500 350 (- 1)) 1), (example_dom, ClickZoomOut)]"
  have z: "list_all is_zoom ?ops" by simp
  have f: "fitScale focused_state = 1" and s: "scale focused_state = 1"
    by (simp_all add: focused_state_def loaded_state_def initial_state_def)
  have l: "list_all (listener_holds (fitScale focused_state)) ?ops" by (simp add: f)
  have h: "0 \<le> fitScale focused_state" "fitScale focused_state * (1 / 2) \<le> scale focused_state"
    "scale focused_state \<le> 5"
    by (simp_all add: f s)
  note t = zoom_sequence_within_bounds [OF z l h, unfolded f]
  show ?thesis using z l h t by simp
qed

text \<open>
  A listener with an outdated fit scale. After a fit that lowers the fit scale from 12
  to 5 while the scale stays 5, the listener registered before it still floors at
  \<open>12 * 0.5\<close>: a wheel-out stores the scale 6, above the ceiling, from a state whose
  scale was within \<open>[fitScale * 0.5, 5]\<close>.
\<close>

lemma stale_listener_zoom_out:
  "fitScale refit_state = 5 \<and> scale refit_state = 5
   \<and> fitScale (step stale_wheel_out refit_state) = 5
   \<and> scale (step stale_wheel_out refit_state) = 6"
proof -
  have k: "ctrlKey (ctrl_wheel_at 500 350 1)" "\<not> - deltaY (ctrl_wheel_at 500 350 1) > 0"
    by (simp_all add: ctrl_wheel_at_def)
  have foc: "isFocused refit_state"
    by (simp add: refit_state_def focused_state_def)
  have c: "containerRef example_dom = Some example_container"
    and v: "viewerRef example_dom = Some example_viewer"
    by (simp_all add: example_dom_def)
  have "scale (handleWheel example_dom (ctrl_wheel_at 500 350 1) (refit_state\<lparr>fitScale := 12\<rparr>))
      = max (12 * (1 / 2)) (5 / (11 / 10))"
    using k foc c v by (simp add: handleWheel_def Let_def refit_state_def)
  then show ?thesis
    by (simp add: stale_wheel_out_def refit_state_def)
qed

text \<open>
  The claim as stated fails when the fit scale exceeds 5. A page of 100 by 100 pixels in
  a container of 1800 by 900 pixels has the fit scale 43/5 (8.6), which the fit stores
  as the scale; the zoom-out button is enabled there, and a click gives
  \<open>max (43/10) ((43/5) / (11/10)) = 86/11\<close>, above 5.
\<close>

theorem zoom_bounds_counterexample:
  "\<not> (fitScale (run [(small_page_dom, PageLoadSuccess), (small_page_dom, ClickZoomOut)] initial_state)
        * (1 / 2)
       \<le> scale (run [(small_page_dom, PageLoadSuccess), (small_page_dom, ClickZoomOut)] initial_state)
      \<and> scale (run [(small_page_dom, PageLoadSuccess), (small_page_dom, ClickZoomOut)] initial_state)
          \<le> 5)"
proof -
  let ?s1 = "onPageLoadSuccess small_page_dom initial_state"
  have f1: "fitScale ?s1 = 43 / 5" and s1: "scale ?s1 = 43 / 5"
    by (simp_all add: onPageLoadSuccess_def calculateFitScale_def small_page_dom_def
        initial_state_def Let_def PADDING_def updateTransform_None_fields)
  have m: "containerRef small_page_dom \<noteq> None" by (simp add: small_page_dom_def)
  have en: "\<not> zoomOutDisabled ?s1"
    by (simp add: zoomOutDisabled_def MIN_SCALE_FACTOR_def f1 s1)
  have "scale (clickZoomOut small_page_dom ?s1) = 86 / 11"
    using clickZoomOut_scale_enabled [OF m en] by (simp add: f1 s1)
  then show ?thesis by simp
qed

section \<open>Reset, close and reopen\<close>

lemma handleResetView_fields:
  "scale (handleResetView d s) = fitScale s"
  "fitScale (handleResetView d s) = fitScale s"
  "panOffsetRef (handleResetView d s) = \<lparr>pos_x = 0, pos_y = 0\<rparr>"
  "lastTransformRef (handleResetView d s) = \<lparr>pos_x = 0, pos_y = 0\<rparr>"
  by (simp_all add: handleResetView_def updateTransform_None_fields)

text \<open>
  Claim C6. \<^verbatim>\<open>handleResetView\<close> sets the scale to the fit scale and the pan offset to
  (0, 0) and keeps the fit scale. It is idempotent: a second reset in the same layout
  returns the same component state, and in any layout the same scale, fit scale and pan
  offset. The offset it stores is not the centred one: in the example layout the fit
  stores (80/3, 20) and a reset after it stores (0, 0).
\<close>

theorem reset_view_idempotent:
  "scale (handleResetView d s) = fitScale s
   \<and> fitScale (handleResetView d s) = fitScale s
   \<and> panOffsetRef (handleResetView d s) = \<lparr>pos_x = 0, pos_y = 0\<rparr>
   \<and> handleResetView d (handleResetView d s) = handleResetView d s
   \<and> run [(d, ClickResetView), (d, ClickResetView)] s = run [(d, ClickResetView)] s
   \<and> scale (handleResetView d' (handleResetView d s)) = scale (handleResetView d s)
   \<and> fitScale (handleResetView d' (handleResetView d s)) = fitScale (handleResetView d s)
   \<and> panOffsetRef (handleResetView d' (handleResetView d s)) = panOffsetRef (handleResetView d s)
   \<and> panOffsetRef (calculateFitScale example_dom loaded_state) = \<lparr>pos_x = 80 / 3, pos_y = 20\<rparr>
   \<and> panOffsetRef (handleResetView example_dom (calculateFitScale example_dom loaded_state))
        = \<lparr>pos_x = 0, pos_y = 0\<rparr>"
proof -
  have idem: "handleResetView d (handleResetView d s) = handleResetView d s"
  proof (cases "viewerRef d = None \<or> containerRef d = None \<or> pageRef d = None")
    case True
    then show ?thesis
      by (auto simp add: handleResetView_def updateTransform_def split: option.splits)
  next
    case False
    then obtain v c p where "viewerRef d = Some v" "containerRef d = Some c" "pageRef d = Some p"
      by auto
    then show ?thesis
      by (simp add: handleResetView_def updateTransform_None)
  qed
  then have twice: "run [(d, ClickResetView), (d, ClickResetView)] s = run [(d, ClickResetView)] s"
    by simp
  have centred: "panOffsetRef (calculateFitScale example_dom loaded_state)
      = \<lparr>pos_x = 80 / 3, pos_y = 20\<rparr>"
    by (simp add: calculateFitScale_def example_dom_def example_container_def example_page_def
        loaded_state_def Let_def PADDING_def updateTransform_None_fields)
  show ?thesis
    using idem twice centred by (simp add: handleResetView_fields)
qed

text \<open>
  Claim C8. When \<^verbatim>\<open>isOpen\<close> becomes false the effect stores scale 1, fit scale 1, pan
  offset (0, 0), page 1, zero pages, the loading flag and no error, whatever the state
  was; the effect run for the reopening changes nothing, so the reopened viewer starts
  from these values.
\<close>

theorem close_resets_state:
  "scale (isOpenEffect False s) = 1
   \<and> fitScale (isOpenEffect False s) = 1
   \<and> panOffsetRef (isOpenEffect False s) = \<lparr>pos_x = 0, pos_y = 0\<rparr>
   \<and> pageNumber (isOpenEffect False s) = 1
   \<and> numPages (isOpenEffect False s) = 0
   \<and> isLoading (isOpenEffect False s)
   \<and> error (isOpenEffect False s) = None
   \<and> isOpenEffect True (isOpenEffect False s) = isOpenEffect False s
   \<and> run [(d, IsOpenChanged False), (d', IsOpenChanged True)] s = isOpenEffect False s"
proof -
  have closed: "isOpenEffect False s =
      s\<lparr>numPages := 0, pageNumber := 1, scale := 1, fitScale := 1, error := None,
        isLoading := True, panOffsetRef := \<lparr>pos_x = 0, pos_y = 0\<rparr>,
        lastTransformRef := \<lparr>pos_x = 0, pos_y = 0\<rparr>\<rparr>"
    by (simp add: isOpenEffect_def)
  have reopened: "isOpenEffect True t = t" for t
    by (simp add: isOpenEffect_def)
  have "run [(d, IsOpenChanged False), (d', IsOpenChanged True)] s
      = isOpenEffect True (isOpenEffect False s)"
    by simp
  then show ?thesis
    unfolding reopened by (simp add: closed)
qed

text \<open>
  Claim C10. The close effect does not assign \<^verbatim>\<open>activeMode\<close>: the mode before closing
  is the mode after closing and after reopening. A viewer switched to \<^verbatim>\<open>ruler\<close>, closed
  and reopened is in \<^verbatim>\<open>ruler\<close> mode with the crosshair cursor, not in the initial mode
  \<^verbatim>\<open>drag\<close>.
\<close>

theorem close_keeps_active_mode:
  "activeMode (isOpenEffect False s) = activeMode s
   \<and> activeMode (isOpenEffect True (isOpenEffect False s)) = activeMode s
   \<and> activeMode (run [(d, ModeChange ''ruler''), (d, IsOpenChanged False), (d, IsOpenChanged True)]
        initial_state) = ''ruler''
   \<and> activeMode initial_state = ''drag''
   \<and> getCursorStyle (run [(d, ModeChange ''ruler''), (d, IsOpenChanged False), (d, IsOpenChanged True)]
        initial_state) = ''crosshair''"
proof -
  have kept: "activeMode (isOpenEffect b t) = activeMode t" for b t
    by (simp add: isOpenEffect_def)
  have idle: "isPanning (isOpenEffect b t) = isPanning t" for b t
    by (simp add: isOpenEffect_def)
  let ?s = "run [(d, ModeChange ''ruler''), (d, IsOpenChanged False), (d, IsOpenChanged True)]
        initial_state"
  have m: "activeMode ?s = ''ruler''" and p: "\<not> isPanning ?s"
    by (simp_all add: kept idle setActiveMode_def initial_state_def)
  have c: "getCursorStyle ?s = ''crosshair''"
    unfolding getCursorStyle_def m using p by simp
  show ?thesis using m c by (simp add: kept initial_state_def)
qed

section \<open>The pan gesture\<close>

text \<open>The handlers the container ends up with: of the two \<^verbatim>\<open>onMouseLeave\<close> values the last.\<close>

lemma container_handlers:
  "jsx_props containerProps prop =
     (if prop = ''onMouseLeave'' then Some (\<lambda>d e s. s\<lparr>isFocused := False\<rparr>)
      else if prop = ''onMouseEnter'' then Some (\<lambda>d e s. s\<lparr>isFocused := True\<rparr>)
      else if prop = ''onMouseUp'' then Some handleMouseUp
      else if prop = ''onMouseMove'' then Some handleMouseMove
      else if prop = ''onMouseDown'' then Some handleMouseDown
      else None)"
  by (simp add: jsx_props_def containerProps_def)

lemma fire_mouse_down: "fireContainer ''onMouseDown'' d e s = handleMouseDown d e s"
  by (simp add: fireContainer_def container_handlers)

lemma fire_mouse_move: "fireContainer ''onMouseMove'' d e s = handleMouseMove d e s"
  by (simp add: fireContainer_def container_handlers)

lemma fire_mouse_up: "fireContainer ''onMouseUp'' d e s = s\<lparr>isPanning := False\<rparr>"
  by (simp add: fireContainer_def container_handlers handleMouseUp_def)

lemma fire_mouse_enter: "fireContainer ''onMouseEnter'' d e s = s\<lparr>isFocused := True\<rparr>"
  by (simp add: fireContainer_def container_handlers)

lemma fire_mouse_leave: "fireContainer ''onMouseLeave'' d e s = s\<lparr>isFocused := False\<rparr>"
  by (simp add: fireContainer_def container_handlers)

lemma mouse_at_fields:
  "button (mouse_at a b) = 0" "clientX (mouse_at a b) = a" "clientY (mouse_at a b) = b"
  by (simp_all add: mouse_at_def)

lemma pan_session_start:
  "button e = 0 \<Longrightarrow>
   fireContainer ''onMouseDown'' d e s =
     s\<lparr>isPanning := True, startPanRef := \<lparr>pos_x = clientX e, pos_y = clientY e\<rparr>,
       lastTransformRef := panOffsetRef s\<rparr>"
  by (simp add: fire_mouse_down handleMouseDown_def)

lemma pan_session_move:
  "isPanning s \<Longrightarrow>
   panOffsetRef (fireContainer ''onMouseMove'' d e s) =
     \<lparr>pos_x = pos_x (lastTransformRef s) + (clientX e - pos_x (startPanRef s)),
      pos_y = pos_y (lastTransformRef s) + (clientY e - pos_y (startPanRef s))\<rparr>
   \<and> scale (fireContainer ''onMouseMove'' d e s) = scale s
   \<and> isPanning (fireContainer ''onMouseMove'' d e s)
   \<and> startPanRef (fireContainer ''onMouseMove'' d e s) = startPanRef s
   \<and> lastTransformRef (fireContainer ''onMouseMove'' d e s) = lastTransformRef s"
  by (simp add: fire_mouse_move handleMouseMove_def Let_def updateTransform_None_fields)

text \<open>
  Claim C4. A primary-button press starts a pan session (\<open>pan_session_start\<close>), a move
  while panning sets the pan offset to the baseline plus the pointer's displacement at
  unchanged scale (\<open>pan_session_move\<close>), and a release ends the session
  (\<open>fire_mouse_up\<close>). Leaving the container does not: \<^verbatim>\<open>onMouseLeave={handleMouseUp}\<close>
  is replaced by the later \<^verbatim>\<open>onMouseLeave={() => setIsFocused(false)}\<close>
  (\<open>fire_mouse_leave\<close>). In the example layout, after a press at (300, 200) and a
  leave the viewer is still panning, and a move to (310, 220) after re-entering, with
  no button held, drags the page by (10, 20); after a press and a release it is not
  panning.
\<close>

theorem mouse_leave_keeps_pan_session:
  "isPanning (run [(example_dom, Mouse ''onMouseDown'' (mouse_at 300 200)),
                   (example_dom, Mouse ''onMouseLeave'' (mouse_at 950 200))] focused_state)
   \<and> panOffsetRef (run [(example_dom, Mouse ''onMouseDown'' (mouse_at 300 200)),
                   (example_dom, Mouse ''onMouseLeave'' (mouse_at 950 200)),
                   (example_dom, Mouse ''onMouseEnter'' (mouse_at 890 200)),
                   (example_dom, Mouse ''onMouseMove'' (mouse_at 310 220))] focused_state)
       = \<lparr>pos_x = 10, pos_y = 20\<rparr>
   \<and> \<not> isPanning (run [(example_dom, Mouse ''onMouseDown'' (mouse_at 300 200)),
                   (example_dom, Mouse ''onMouseUp'' (mouse_at 300 200))] focused_state)"
proof -
  let ?s1 = "fireContainer ''onMouseDown'' example_dom (mouse_at 300 200) focused_state"
  have b: "button (mouse_at 300 200) = 0" by (simp add: mouse_at_fields)
  have s1: "?s1 = focused_state\<lparr>isPanning := True, startPanRef := \<lparr>pos_x = 300, pos_y = 200\<rparr>,
       lastTransformRef := panOffsetRef focused_state\<rparr>"
    using pan_session_start [OF b, of example_dom focused_state] by (simp add: mouse_at_fields)
  have p0: "panOffsetRef focused_state = \<lparr>pos_x = 0, pos_y = 0\<rparr>"
    by (simp add: focused_state_def loaded_state_def initial_state_def origin_def)
  let ?s3 = "(?s1\<lparr>isFocused := False\<rparr>)\<lparr>isFocused := True\<rparr>"
  have pan3: "isPanning ?s3" by (simp add: s1)
  have mv: "panOffsetRef (fireContainer ''onMouseMove'' example_dom (mouse_at 310 220) ?s3)
      = \<lparr>pos_x = 10, pos_y = 20\<rparr>"
    using pan_session_move [OF pan3, of example_dom "mouse_at 310 220"]
    by (simp add: s1 p0 mouse_at_fields)
  show ?thesis
    using mv by (simp add: fire_mouse_leave fire_mouse_enter fire_mouse_up s1)
qed

section \<open>Page navigation\<close>

lemma updateTransform_cursor:
  "pageNumber (updateTransform d s k zo) = pageNumber s"
  "numPages (updateTransform d s k zo) = numPages s"
  by (simp_all add: updateTransform_def Let_def split: option.splits)

lemma calculateFitScale_cursor:
  "pageNumber (calculateFitScale d s) = pageNumber s"
  "numPages (calculateFitScale d s) = numPages s"
  by (simp_all add: calculateFitScale_def Let_def updateTransform_cursor split: option.splits)

lemma handleWheel_cursor:
  "pageNumber (handleWheel d e s) = pageNumber s"
  "numPages (handleWheel d e s) = numPages s"
  by (simp_all add: handleWheel_def Let_def updateTransform_cursor split: option.splits)

lemma fireContainer_cursor:
  "pageNumber (fireContainer prop d e s) = pageNumber s"
  "numPages (fireContainer prop d e s) = numPages s"
  by (simp_all add: fireContainer_def container_handlers handleMouseUp_def handleMouseDown_def
      handleMouseMove_def Let_def updateTransform_cursor)

lemma zoom_buttons_cursor:
  "pageNumber (clickZoomIn d s) = pageNumber s"
  "numPages (clickZoomIn d s) = numPages s"
  "pageNumber (clickZoomOut d s) = pageNumber s"
  "numPages (clickZoomOut d s) = numPages s"
  "pageNumber (handleResetView d s) = pageNumber s"
  "numPages (handleResetView d s) = numPages s"
  by (simp_all add: clickZoomIn_def clickZoomOut_def handleZoomIn_def handleZoomOut_def
      handleResetView_def Let_def updateTransform_cursor split: option.splits)

lemma load_callbacks_cursor:
  "pageNumber (onPageLoadSuccess d s) = pageNumber s"
  "numPages (onPageLoadSuccess d s) = numPages s"
  "pageNumber (onResize d s) = pageNumber s"
  "numPages (onResize d s) = numPages s"
  "pageNumber (onDocumentLoadError m d s) = pageNumber s"
  "numPages (onDocumentLoadError m d s) = numPages s"
  by (simp_all add: onPageLoadSuccess_def onResize_def onDocumentLoadError_def Let_def
      calculateFitScale_cursor)

lemma step_cursor_inv:
  assumes "loaded_pages_ok ev" and "cursor_inv s"
  shows "cursor_inv (step ev s)"
proof (cases ev)
  case (Pair d e)
  show ?thesis
    using assms Pair
    by (cases e)
      (auto simp add: cursor_inv_def handleWheel_cursor fireContainer_cursor zoom_buttons_cursor
        load_callbacks_cursor clickPrevious_def clickNext_def previousDisabled_def nextDisabled_def
        setActiveMode_def isOpenEffect_def onDocumentLoadSuccess_def)
qed

lemma run_cursor_inv:
  "list_all loaded_pages_ok evs \<Longrightarrow> cursor_inv s \<Longrightarrow> cursor_inv (run evs s)"
  by (induction evs arbitrary: s) (simp_all add: step_cursor_inv)

lemma initial_cursor_inv: "cursor_inv initial_state"
  by (simp add: cursor_inv_def initial_state_def)

text \<open>
  Before a document has reported its pages the cursor is at page 1 of 0: in every state
  the viewer reaches from its initial state (documents reporting at least one page),
  the page number is at least 1, and it is 1 while the page count is 0.
\<close>

lemma zero_pages_cursor:
  assumes "list_all loaded_pages_ok evs"
  shows "1 \<le> pageNumber (run evs initial_state)"
    and "numPages (run evs initial_state) = 0 \<Longrightarrow> pageNumber (run evs initial_state) = 1"
  using run_cursor_inv [OF assms initial_cursor_inv] by (simp_all add: cursor_inv_def)

text \<open>
  Claim C7, as amended. For every page cursor state, the previous and next buttons
  change nothing but the page number. Previous is a no-op at page 1 (and below) and
  otherwise decrements by one; next is a no-op at the last page (and beyond) and
  otherwise increments by one; both are no-ops at page 1 of 0, the cursor before a
  document has loaded. A page number within \<open>[1, numPages]\<close> stays within it. Previous
  clamps only at 1 and next only at the page count: a page number above the page count
  is not brought back by previous. At page count 0 the next button relies on its
  \<^verbatim>\<open>disabled\<close> attribute: the updater alone would store \<open>min 0 2 = 0\<close>.
\<close>

theorem page_navigation_clamped:
  "clickPrevious s = s\<lparr>pageNumber := pageNumber (clickPrevious s)\<rparr>
   \<and> clickNext s = s\<lparr>pageNumber := pageNumber (clickNext s)\<rparr>
   \<and> (pageNumber s \<le> 1 \<longrightarrow> clickPrevious s = s)
   \<and> (1 < pageNumber s \<longrightarrow> pageNumber (clickPrevious s) = pageNumber s - 1)
   \<and> (numPages s \<le> pageNumber s \<longrightarrow> clickNext s = s)
   \<and> (pageNumber s < numPages s \<longrightarrow> pageNumber (clickNext s) = pageNumber s + 1)
   \<and> (numPages s = 0 \<and> pageNumber s = 1 \<longrightarrow> clickPrevious s = s \<and> clickNext s = s)
   \<and> (1 \<le> pageNumber s \<and> pageNumber s \<le> numPages s \<longrightarrow>
        1 \<le> pageNumber (clickPrevious s) \<and> pageNumber (clickPrevious s) \<le> numPages s
        \<and> 1 \<le> pageNumber (clickNext s) \<and> pageNumber (clickNext s) \<le> numPages s)"
proof -
  have frame: "clickPrevious s = s\<lparr>pageNumber := pageNumber (clickPrevious s)\<rparr>"
    "clickNext s = s\<lparr>pageNumber := pageNumber (clickNext s)\<rparr>"
    by (simp_all add: clickPrevious_def clickNext_def)
  have first: "pageNumber s \<le> 1 \<longrightarrow> clickPrevious s = s"
    by (simp add: clickPrevious_def previousDisabled_def)
  have dec: "1 < pageNumber s \<longrightarrow> pageNumber (clickPrevious s) = pageNumber s - 1"
    by (simp add: clickPrevious_def previousDisabled_def)
  have last: "numPages s \<le> pageNumber s \<longrightarrow> clickNext s = s"
    by (simp add: clickNext_def nextDisabled_def)
  have inc: "pageNumber s < numPages s \<longrightarrow> pageNumber (clickNext s) = pageNumber s + 1"
    by (simp add: clickNext_def nextDisabled_def)
  have none: "numPages s = 0 \<and> pageNumber s = 1 \<longrightarrow> clickPrevious s = s \<and> clickNext s = s"
    by (simp add: clickPrevious_def previousDisabled_def clickNext_def nextDisabled_def)
  have within: "1 \<le> pageNumber s \<and> pageNumber s \<le> numPages s \<longrightarrow>
        1 \<le> pageNumber (clickPrevious s) \<and> pageNumber (clickPrevious s) \<le> numPages s
        \<and> 1 \<le> pageNumber (clickNext s) \<and> pageNumber (clickNext s) \<le> numPages s"
    by (simp add: clickPrevious_def previousDisabled_def clickNext_def nextDisabled_def)
  show ?thesis using frame first dec last inc none within by blast
qed

text \<open>
  The initial cursor, page 1 of 0, and the cursor at page 2 of 3 reached by loading a
  document of three pages and pressing next.
\<close>

theorem page_navigation_clamped_witness:
  "pageNumber initial_state = 1 \<and> numPages initial_state = 0
   \<and> clickPrevious initial_state = initial_state
   \<and> clickNext initial_state = initial_state
   \<and> pageNumber (run [(example_dom, DocumentLoadSuccess 3), (example_dom, ClickNext)] initial_state) = 2
   \<and> numPages (run [(example_dom, DocumentLoadSuccess 3), (example_dom, ClickNext)] initial_state) = 3
   \<and> pageNumber (clickPrevious
        (run [(example_dom, DocumentLoadSuccess 3), (example_dom, ClickNext)] initial_state)) = 1
   \<and> pageNumber (clickNext
        (run [(example_dom, DocumentLoadSuccess 3), (example_dom, ClickNext)] initial_state)) = 3"
proof -
  let ?s = "run [(example_dom, DocumentLoadSuccess 3), (example_dom, ClickNext)] initial_state"
  have p0: "pageNumber initial_state = 1" and n0: "numPages initial_state = 0"
    by (simp_all add: initial_state_def)
  have p1: "pageNumber ?s = 2" and n1: "numPages ?s = 3"
    by (simp_all add: onDocumentLoadSuccess_def clickNext_def nextDisabled_def initial_state_def)
  note t0 = page_navigation_clamped [of initial_state]
  note t1 = page_navigation_clamped [of ?s]
  from t0 p0 n0 have r0: "clickPrevious initial_state = initial_state"
    "clickNext initial_state = initial_state"
    by blast+
  have h: "1 < pageNumber ?s" "pageNumber ?s < numPages ?s" unfolding p1 n1 by simp_all
  from t1 h have "pageNumber (clickPrevious ?s) = pageNumber ?s - 1"
    "pageNumber (clickNext ?s) = pageNumber ?s + 1"
    by blast+
  then have r1: "pageNumber (clickPrevious ?s) = 1" "pageNumber (clickNext ?s) = 3"
    unfolding p1 by simp_all
  show ?thesis using p0 n0 r0 p1 n1 r1 by blast
qed

text \<open>
  The claim as stated, that navigation keeps the page number within \<open>[1, numPages]\<close> in
  every cursor state, fails once a shorter document has loaded. After loading a
  document of three pages, pressing next twice and loading a document of one page the
  cursor is at page 3 of 1; previous then stores page 2 of 1.
\<close>

theorem page_navigation_counterexample:
  "pageNumber (run [(example_dom, DocumentLoadSuccess 3), (example_dom, ClickNext),
                    (example_dom, ClickNext), (example_dom, DocumentLoadSuccess 1),
                    (example_dom, ClickPrevious)] initial_state) = 2
   \<and> numPages (run [(example_dom, DocumentLoadSuccess 3), (example_dom, ClickNext),
                    (example_dom, ClickNext), (example_dom, DocumentLoadSuccess 1),
                    (example_dom, ClickPrevious)] initial_state) = 1
   \<and> \<not> (pageNumber (run [(example_dom, DocumentLoadSuccess 3), (example_dom, ClickNext),
                    (example_dom, ClickNext), (example_dom, DocumentLoadSuccess 1),
                    (example_dom, ClickPrevious)] initial_state)
          \<le> numPages (run [(example_dom, DocumentLoadSuccess 3), (example_dom, ClickNext),
                    (example_dom, ClickNext), (example_dom, DocumentLoadSuccess 1),
                    (example_dom, ClickPrevious)] initial_state))"
proof -
  let ?s = "run [(example_dom, DocumentLoadSuccess 3), (example_dom, ClickNext),
                    (example_dom, ClickNext), (example_dom, DocumentLoadSuccess 1),
                    (example_dom, ClickPrevious)] initial_state"
  have p: "pageNumber ?s = 2" and n: "numPages ?s = 1"
    by (simp_all add: onDocumentLoadSuccess_def clickNext_def nextDisabled_def
        clickPrevious_def previousDisabled_def initial_state_def)
  show ?thesis unfolding p n by simp
qed

section \<open>Relay responses\<close>

text \<open>
  Claim C9, as amended. The handler answers 400 with the plain-text body
  \<^verbatim>\<open>Missing URL parameter\<close> exactly when the \<^verbatim>\<open>url\<close> parameter is missing or empty
  (\<^verbatim>\<open>!url\<close>). For a non-empty \<^verbatim>\<open>url\<close> it answers 500 with the JSON body
  \<^verbatim>\<open>{"error":"Failed to fetch PDF"}\<close> when the fetch rejects, the upstream status is
  outside 200..299 or reading the body fails, and otherwise 200 with the upstream bytes
  and the three fixed headers, whatever the upstream content type; a content type that
  is absent or does not contain \<^verbatim>\<open>application/pdf\<close> only adds a console warning.
\<close>

theorem relay_get_responses:
  \<open>(status (fst (GET fetch q)) = 400) = (map_of q ''url'' = None \<or> map_of q ''url'' = Some [])
   \<and> (map_of q ''url'' = None \<or> map_of q ''url'' = Some [] \<longrightarrow>
        fst (GET fetch q) = \<lparr>status = 400, headers = [], body = Text ''Missing URL parameter''\<rparr>)
   \<and> (\<forall>url. map_of q ''url'' = Some url \<and> url \<noteq> [] \<and>
          (fetch url = Rejected
           \<or> (\<exists>r. fetch url = Resolved r \<and> (up_status r < 200 \<or> 299 < up_status r))
           \<or> (\<exists>r. fetch url = Resolved r \<and> up_arrayBuffer r = None)) \<longrightarrow>
        fst (GET fetch q) =
          \<lparr>status = 500, headers = [(''Content-Type'', ''application/json'')],
           body = Text ''{"error":"Failed to fetch PDF"}''\<rparr>)
   \<and> (\<forall>url r bytes. map_of q ''url'' = Some url \<and> url \<noteq> [] \<and> fetch url = Resolved r \<and>
          200 \<le> up_status r \<and> up_status r \<le> 299 \<and> up_arrayBuffer r = Some bytes \<longrightarrow>
        fst (GET fetch q) =
          \<lparr>status = 200,
           headers = [(''Content-Type'', ''application/pdf''),
                      (''Content-Disposition'', ''inline; filename="document.pdf"''),
                      (''Cache-Control'', ''public, max-age=3600'')],
           body = Buffer bytes\<rparr>
        \<and> snd (GET fetch q) =
            (if (case up_content_type r of None \<Rightarrow> False
                 | Some ct \<Rightarrow> str_includes ct ''application/pdf'')
             then [] else [Warn ''Response is not a PDF:'']))\<close>
proof -
  have a: "(status (fst (GET fetch q)) = 400) = (map_of q ''url'' = None \<or> map_of q ''url'' = Some [])"
    by (simp add: GET_def missing_response_def failure_response_def pdf_response_def Let_def
        split: option.splits fetch_result.splits)
  have b: "map_of q ''url'' = None \<or> map_of q ''url'' = Some [] \<longrightarrow>
        fst (GET fetch q) = \<lparr>status = 400, headers = [], body = Text ''Missing URL parameter''\<rparr>"
    by (auto simp add: GET_def missing_response_def)
  have c: \<open>\<forall>url. map_of q ''url'' = Some url \<and> url \<noteq> [] \<and>
          (fetch url = Rejected
           \<or> (\<exists>r. fetch url = Resolved r \<and> (up_status r < 200 \<or> 299 < up_status r))
           \<or> (\<exists>r. fetch url = Resolved r \<and> up_arrayBuffer r = None)) \<longrightarrow>
        fst (GET fetch q) =
          \<lparr>status = 500, headers = [(''Content-Type'', ''application/json'')],
           body = Text ''{"error":"Failed to fetch PDF"}''\<rparr>\<close>
    by (auto simp add: GET_def failure_response_def ok_def Let_def)
  have d: \<open>\<forall>url r bytes. map_of q ''url'' = Some url \<and> url \<noteq> [] \<and> fetch url = Resolved r \<and>
          200 \<le> up_status r \<and> up_status r \<le> 299 \<and> up_arrayBuffer r = Some bytes \<longrightarrow>
        fst (GET fetch q) =
          \<lparr>status = 200,
           headers = [(''Content-Type'', ''application/pdf''),
                      (''Content-Disposition'', ''inline; filename="document.pdf"''),
                      (''Cache-Control'', ''public, max-age=3600'')],
           body = Buffer bytes\<rparr>
        \<and> snd (GET fetch q) =
            (if (case up_content_type r of None \<Rightarrow> False
                 | Some ct \<Rightarrow> str_includes ct ''application/pdf'')
             then [] else [Warn ''Response is not a PDF:''])\<close>
    by (auto simp add: GET_def pdf_response_def ok_def Let_def split: option.splits)
  show ?thesis using a b c d by blast
qed

theorem relay_get_responses_witness:
  \<open>map_of [] ''url'' = (None :: string option)
   \<and> fst (GET (\<lambda>u. Rejected) []) = \<lparr>status = 400, headers = [], body = Text ''Missing URL parameter''\<rparr>
   \<and> map_of example_query ''url'' = Some ''https://example.org/a.pdf''
   \<and> fst (GET (\<lambda>u. Resolved not_found_upstream) example_query) =
          \<lparr>status = 500, headers = [(''Content-Type'', ''application/json'')],
           body = Text ''{"error":"Failed to fetch PDF"}''\<rparr>
   \<and> fst (GET (\<lambda>u. Resolved html_upstream) example_query) =
          \<lparr>status = 200,
           headers = [(''Content-Type'', ''application/pdf''),
                      (''Content-Disposition'', ''inline; filename="document.pdf"''),
                      (''Cache-Control'', ''public, max-age=3600'')],
           body = Buffer [37, 80, 68, 70]\<rparr>
   \<and> snd (GET (\<lambda>u. Resolved html_upstream) example_query) = [Warn ''Response is not a PDF:'']\<close>
proof -
  have m0: "map_of [] ''url'' = (None :: string option)" by simp
  have m1: "map_of example_query ''url'' = Some ''https://example.org/a.pdf''"
    by (simp add: example_query_def)
  have ne: "''https://example.org/a.pdf'' \<noteq> []" by simp
  have nf: "299 < up_status not_found_upstream" by (simp add: not_found_upstream_def)
  have h: "200 \<le> up_status html_upstream" "up_status html_upstream \<le> 299"
    "up_arrayBuffer html_upstream = Some [37, 80, 68, 70]"
    "up_content_type html_upstream = Some ''text/html''"
    by (simp_all add: html_upstream_def)
  have ni: "\<not> str_includes ''text/html'' ''application/pdf''" by simp
  note t0 = relay_get_responses [of "\<lambda>u. Rejected" "[]"]
  note t1 = relay_get_responses [of "\<lambda>u. Resolved not_found_upstream" example_query]
  note t2 = relay_get_responses [of "\<lambda>u. Resolved html_upstream" example_query]
  from t0 m0 have r0: "fst (GET (\<lambda>u. Rejected) []) =
      \<lparr>status = 400, headers = [], body = Text ''Missing URL parameter''\<rparr>"
    by blast
  from t1 m1 ne nf have r1: \<open>fst (GET (\<lambda>u. Resolved not_found_upstream) example_query) =
          \<lparr>status = 500, headers = [(''Content-Type'', ''application/json'')],
           body = Text ''{"error":"Failed to fetch PDF"}''\<rparr>\<close>
    by blast
  from t2 m1 ne h(1-3) have r2: \<open>fst (GET (\<lambda>u. Resolved html_upstream) example_query) =
          \<lparr>status = 200,
           headers = [(''Content-Type'', ''application/pdf''),
                      (''Content-Disposition'', ''inline; filename="document.pdf"''),
                      (''Cache-Control'', ''public, max-age=3600'')],
           body = Buffer [37, 80, 68, 70]\<rparr>
     \<and> snd (GET (\<lambda>u. Resolved html_upstream) example_query) =
            (if (case up_content_type html_upstream of None \<Rightarrow> False
                 | Some ct \<Rightarrow> str_includes ct ''application/pdf'')
             then [] else [Warn ''Response is not a PDF:''])\<close>
    by blast
  from r2 have r3: "snd (GET (\<lambda>u. Resolved html_upstream) example_query) = [Warn ''Response is not a PDF:'']"
    unfolding h(4) using ni by simp
  show ?thesis using m0 r0 m1 r1 r2 r3 by blast
qed

text \<open>
  The claim as stated, 400 exactly when the parameter is missing, fails for the request
  \<^verbatim>\<open>?url=\<close>: the parameter is present with the empty value, and the answer is 400.
\<close>

theorem relay_empty_url_counterexample:
  "\<not> ((status (fst (GET (\<lambda>u. Rejected) [(''url'', [])])) = 400)
        = (map_of [(''url'', [])] ''url'' = (None :: string option)))"
  by (simp add: GET_def missing_response_def)

end
